theory Spec2Isabelle
  imports Main "HOL-Library.Word" "HOL-Library.Sublist" "HOL-Library.AList"
begin

section \<open>The suggestion endpoint (\<^verbatim>\<open>src/app/api/suggestions/route.ts\<close>)\<close>

text \<open>
  The route exports two handlers, \<^verbatim>\<open>OPTIONS\<close> and \<^verbatim>\<open>POST\<close>. \<^verbatim>\<open>POST\<close> reads the request
  body, checks two fields, builds a two-message prompt from two lookup tables, calls the
  provider once under a 20 second abort timer and translates the result. The handler is
  modelled as a function of everything it awaits: the outcome of \<^verbatim>\<open>request.json()\<close>, the
  behaviour of \<^verbatim>\<open>fetch\<close> on the call it is given, and the outcome of
  \<^verbatim>\<open>response.json()\<close>. Every \<^verbatim>\<open>throw\<close> of the handler or of a platform function it calls
  is an \<open>Inl\<close> value, so that the \<^verbatim>\<open>try\<close>/\<^verbatim>\<open>catch\<close> of the source is a case split.
\<close>

subsection \<open>Strings and JSON values\<close>

text \<open>
  A JavaScript string is a sequence of 16-bit code units. Source literals are ASCII and are
  embedded with \<open>str\<close>.
\<close>

type_synonym jstring = "16 word list"

definition str :: "string \<Rightarrow> jstring" where
  "str s = map of_char s"

text \<open>
  What \<^verbatim>\<open>JSON.parse\<close> returns. A number is kept as its canonical rendering (the result of
  \<^verbatim>\<open>ToString\<close> on it, so that both zeros are \<^verbatim>\<open>0\<close>): the handler never computes with a
  number, it only tests one for truthiness or interpolates it into a string. An object is the
  list of its own properties; the first entry for a name is the property.
  The value \<^verbatim>\<open>undefined\<close> is \<open>None\<close> of \<open>json option\<close>.
\<close>

datatype json =
    JNull
  | JBool bool
  | JNum jstring
  | JStr jstring
  | JArr "json list"
  | JObj "(jstring \<times> json) list"

record js_error =
  err_name :: jstring
  err_message :: "jstring option"

definition TypeError :: "jstring \<Rightarrow> js_error" where
  "TypeError m = \<lparr>err_name = str ''TypeError'', err_message = Some m\<rparr>"

definition RangeError :: "jstring \<Rightarrow> js_error" where
  "RangeError m = \<lparr>err_name = str ''RangeError'', err_message = Some m\<rparr>"

text \<open>\<^verbatim>\<open>ToBoolean\<close>, as used by \<^verbatim>\<open>!x\<close>, \<^verbatim>\<open>x ? a : b\<close> and \<^verbatim>\<open>filter(Boolean)\<close>.\<close>

fun truthy :: "json \<Rightarrow> bool" where
  "truthy JNull = False"
| "truthy (JBool b) = b"
| "truthy (JNum r) = (r \<noteq> str ''0'' \<and> r \<noteq> str ''NaN'')"
| "truthy (JStr s) = (s \<noteq> [])"
| "truthy (JArr xs) = True"
| "truthy (JObj kvs) = True"

fun truthy_opt :: "json option \<Rightarrow> bool" where
  "truthy_opt None = False"
| "truthy_opt (Some v) = truthy v"

text \<open>
  Decimal rendering of an array index or a status code.
\<close>

fun decimal :: "nat \<Rightarrow> jstring" where
  "decimal n =
     (if n < 10 then [of_nat (48 + n)]
      else decimal (n div 10) @ [of_nat (48 + n mod 10)])"

text \<open>
  Property reads on a parsed value. \<open>get_member\<close> is \<^verbatim>\<open>v.name\<close> for the names the handler
  reads (\<^verbatim>\<open>field\<close>, \<^verbatim>\<open>language\<close>, \<^verbatim>\<open>applicantDetails\<close>, \<^verbatim>\<open>existingText\<close>, \<^verbatim>\<open>error\<close>,
  \<^verbatim>\<open>message\<close>, \<^verbatim>\<open>choices\<close>, \<^verbatim>\<open>content\<close>): none of them is defined on a string, a number,
  a boolean, an array or a built-in prototype, so only an object's own property can answer.
  \<open>get_index\<close> is \<^verbatim>\<open>v[i]\<close>: an element of an array, a one-unit string of a string, the
  property named by the decimal index of an object. \<open>opt_member\<close> and \<open>opt_index\<close> are the
  optional chains \<^verbatim>\<open>v?.name\<close> and \<^verbatim>\<open>v?.[i]\<close>, which stop at \<^verbatim>\<open>undefined\<close> and \<^verbatim>\<open>null\<close>.
\<close>

fun get_member :: "json \<Rightarrow> jstring \<Rightarrow> json option" where
  "get_member (JObj kvs) k = map_of kvs k"
| "get_member v k = None"

fun get_index :: "json \<Rightarrow> nat \<Rightarrow> json option" where
  "get_index (JArr xs) i = (if i < length xs then Some (xs ! i) else None)"
| "get_index (JStr s) i = (if i < length s then Some (JStr [s ! i]) else None)"
| "get_index (JObj kvs) i = map_of kvs (decimal i)"
| "get_index v i = None"

fun opt_member :: "json option \<Rightarrow> jstring \<Rightarrow> json option" where
  "opt_member None k = None"
| "opt_member (Some JNull) k = None"
| "opt_member (Some v) k = get_member v k"

fun opt_index :: "json option \<Rightarrow> nat \<Rightarrow> json option" where
  "opt_index None i = None"
| "opt_index (Some JNull) i = None"
| "opt_index (Some v) i = get_index v i"

text \<open>
  \<^verbatim>\<open>ToString\<close> on a parsed value, as a template literal and \<^verbatim>\<open>ToPropertyKey\<close> apply it.
  An array is the comma-joined rendering of its elements, \<^verbatim>\<open>null\<close> elements rendering
  empty. An object renders as \<^verbatim>\<open>[object Object]\<close> through the inherited \<^verbatim>\<open>toString\<close>;
  when it has an own property \<^verbatim>\<open>toString\<close> (never callable, coming from JSON) the
  conversion finds no primitive and throws a \<^verbatim>\<open>TypeError\<close>.
\<close>

fun to_string :: "json \<Rightarrow> js_error + jstring"
  and join_elements :: "json list \<Rightarrow> js_error + jstring" where
  "to_string JNull = Inr (str ''null'')"
| "to_string (JBool b) = Inr (if b then str ''true'' else str ''false'')"
| "to_string (JNum r) = Inr r"
| "to_string (JStr s) = Inr s"
| "to_string (JArr xs) = join_elements xs"
| "to_string (JObj kvs) =
     (if map_of kvs (str ''toString'') = None then Inr (str ''[object Object]'')
      else Inl (TypeError (str ''Cannot convert object to primitive value'')))"
| "join_elements [] = Inr []"
| "join_elements (x # xs) =
     (case (if x = JNull then Inr [] else to_string x) of
        Inl e \<Rightarrow> Inl e
      | Inr s \<Rightarrow>
          (if xs = [] then Inr s
           else (case join_elements xs of
                   Inl e \<Rightarrow> Inl e
                 | Inr t \<Rightarrow> Inr (s @ str '','' @ t))))"

fun property_key :: "json option \<Rightarrow> js_error + jstring" where
  "property_key None = Inr (str ''undefined'')"
| "property_key (Some v) = to_string v"

text \<open>
  \<^verbatim>\<open>String.prototype.trim\<close> removes leading and trailing code units that are
  \<^verbatim>\<open>WhiteSpace\<close> or \<^verbatim>\<open>LineTerminator\<close> of ECMAScript.
\<close>

definition is_white_space :: "16 word \<Rightarrow> bool" where
  "is_white_space c =
     ((0x0009 \<le> c \<and> c \<le> 0x000D) \<or> c = 0x0020 \<or> c = 0x00A0 \<or> c = 0x1680
      \<or> (0x2000 \<le> c \<and> c \<le> 0x200A) \<or> c = 0x2028 \<or> c = 0x2029 \<or> c = 0x202F
      \<or> c = 0x205F \<or> c = 0x3000 \<or> c = 0xFEFF)"

definition trim :: "jstring \<Rightarrow> jstring" where
  "trim s = rev (dropWhile is_white_space (rev (dropWhile is_white_space s)))"

subsection \<open>Values that reach the prompt\<close>

text \<open>
  \<^verbatim>\<open>fieldFocus\<close> and \<^verbatim>\<open>fieldGuidance\<close> are object literals, so \<^verbatim>\<open>table[key]\<close> answers with
  the table's own entry, or else with whatever \<^verbatim>\<open>Object.prototype\<close> defines under that
  name (a built-in function, or for \<^verbatim>\<open>__proto__\<close> the prototype object itself), or else
  with \<^verbatim>\<open>undefined\<close>. A built-in function renders the way V8 prints native code.
\<close>

datatype js_value =
    VString jstring
  | VFunction jstring
  | VObjectPrototype
  | VUndefined

definition object_prototype_functions :: "jstring list" where
  "object_prototype_functions =
     map str [''__defineGetter__'', ''__defineSetter__'', ''hasOwnProperty'',
       ''__lookupGetter__'', ''__lookupSetter__'', ''isPrototypeOf'',
       ''propertyIsEnumerable'', ''toString'', ''valueOf'', ''toLocaleString'']"

definition object_prototype_get :: "jstring \<Rightarrow> js_value" where
  "object_prototype_get k =
     (if k = str ''constructor'' then VFunction (str ''Object'')
      else if k = str ''__proto__'' then VObjectPrototype
      else if k \<in> set object_prototype_functions then VFunction k
      else VUndefined)"

definition record_get :: "(jstring \<times> jstring) list \<Rightarrow> jstring \<Rightarrow> js_value" where
  "record_get table k =
     (case map_of table k of Some s \<Rightarrow> VString s | None \<Rightarrow> object_prototype_get k)"

fun value_to_string :: "js_value \<Rightarrow> jstring" where
  "value_to_string (VString s) = s"
| "value_to_string (VFunction n) = str ''function '' @ n @ str ''() { [native code] }''"
| "value_to_string VObjectPrototype = str ''[object Object]''"
| "value_to_string VUndefined = str ''undefined''"

fun value_truthy :: "js_value \<Rightarrow> bool" where
  "value_truthy (VString s) = (s \<noteq> [])"
| "value_truthy (VFunction n) = True"
| "value_truthy VObjectPrototype = True"
| "value_truthy VUndefined = False"

text \<open>\<^verbatim>\<open>Array.prototype.join\<close>: an \<^verbatim>\<open>undefined\<close> element renders empty.\<close>

fun join_item :: "js_value \<Rightarrow> jstring" where
  "join_item VUndefined = []"
| "join_item v = value_to_string v"

fun join :: "jstring \<Rightarrow> js_value list \<Rightarrow> jstring" where
  "join sep [] = []"
| "join sep [x] = join_item x"
| "join sep (x # y # ys) = join_item x @ sep @ join sep (y # ys)"

subsection \<open>Configuration and tables\<close>

text \<open>
  The module reads two environment variables when it is loaded and throws when the key is
  missing or empty; the model name falls back to a default only when the variable is unset.
\<close>

record process_env =
  env_OPENAI_API_KEY :: "jstring option"
  env_OPENAI_MODEL :: "jstring option"

record config =
  OPENAI_API_KEY :: jstring
  OPENAI_MODEL :: jstring

definition load_module :: "process_env \<Rightarrow> js_error + config" where
  "load_module env =
     (case env_OPENAI_API_KEY env of
        None \<Rightarrow> Inl \<lparr>err_name = str ''Error'', err_message = Some (str
          ''OPENAI_API_KEY is not set. Add it to your environment before starting the server.'')\<rparr>
      | Some k \<Rightarrow>
          if k = [] then Inl \<lparr>err_name = str ''Error'', err_message = Some (str
            ''OPENAI_API_KEY is not set. Add it to your environment before starting the server.'')\<rparr>
          else Inr \<lparr>OPENAI_API_KEY = k,
                    OPENAI_MODEL = (case env_OPENAI_MODEL env of
                                      None \<Rightarrow> str ''gpt-4o-mini'' | Some m \<Rightarrow> m)\<rparr>)"

text \<open>The three values of the type \<^verbatim>\<open>SuggestionField\<close>.\<close>

definition suggestion_fields :: "jstring list" where
  "suggestion_fields =
     map str [''currentFinancialSituation'', ''employmentCircumstances'', ''reasonForApplying'']"

definition fieldFocus :: "(jstring \<times> jstring) list" where
  "fieldFocus =
     [(str ''currentFinancialSituation'',
       str ''current income sources, essential expenses, debts, and concrete examples of financial strain or recent hardship''),
      (str ''employmentCircumstances'',
       str ''employment status, hours or income level, stability of work, caregiving or health barriers, and any recent changes affecting employment''),
      (str ''reasonForApplying'',
       str ''specific reasons for seeking support now, the type of assistance needed, and how it will help meet urgent household needs'')]"

definition fieldGuidance :: "(jstring \<times> jstring) list" where
  "fieldGuidance =
     [(str ''currentFinancialSituation'',
       str ''Begin with the main financial pressure (for example rising bills, debt, or reduced income). Mention amounts when they help explain the strain. Avoid greetings or introductions.''),
      (str ''employmentCircumstances'',
       str ''Start by describing the current work situation or lack of work. Include hours worked, pay level, or caregiving/health limits if relevant. Avoid greetings or introductions.''),
      (str ''reasonForApplying'',
       str ''Lead with the immediate need for assistance and connect it to day-to-day realities. Highlight how support would be used. Avoid greetings or introductions.'')]"

definition corsHeaders :: "(jstring \<times> jstring) list" where
  "corsHeaders =
     [(str ''Access-Control-Allow-Origin'', str ''*''),
      (str ''Access-Control-Allow-Methods'', str ''POST, OPTIONS''),
      (str ''Access-Control-Allow-Headers'', str ''Content-Type, Authorization'')]"

subsection \<open>Responses\<close>

record http_response =
  status :: nat
  headers :: "(jstring \<times> jstring) list"
  json_body :: "json option"

text \<open>
  The \<^verbatim>\<open>Response\<close> constructor behind \<^verbatim>\<open>new NextResponse(body, init)\<close> and
  \<^verbatim>\<open>NextResponse.json(data, init)\<close> follows the Fetch standard: a status outside 200..599 is
  a \<^verbatim>\<open>RangeError\<close>, and a body together with a null-body status (101, 204, 205, 304) is a
  \<^verbatim>\<open>TypeError\<close>. The messages are those of Node.
\<close>

definition null_body_status :: "nat list" where
  "null_body_status = [101, 204, 205, 304]"

definition new_NextResponse ::
    "json option \<Rightarrow> nat \<Rightarrow> (jstring \<times> jstring) list \<Rightarrow> js_error + http_response" where
  \<open>new_NextResponse b st hs =
     (if st < 200 \<or> 599 < st
      then Inl (RangeError (str ''init["status"] must be in the range of 200 to 599, inclusive.''))
      else if b \<noteq> None \<and> st \<in> set null_body_status
      then Inl (TypeError (str ''Response constructor: Invalid response status code '' @ decimal st))
      else Inr \<lparr>status = st, headers = hs, json_body = b\<rparr>)\<close>

definition NextResponse_json :: "json \<Rightarrow> nat \<Rightarrow> js_error + http_response" where
  "NextResponse_json data st =
     new_NextResponse (Some data) st [(str ''content-type'', str ''application/json'')]"

text \<open>\<^verbatim>\<open>withCors\<close> sets every entry of \<^verbatim>\<open>corsHeaders\<close> on the response and returns it.\<close>

definition headers_set :: "jstring \<times> jstring \<Rightarrow> http_response \<Rightarrow> http_response" where
  "headers_set kv response =
     response\<lparr>headers := AList.update (fst kv) (snd kv) (headers response)\<rparr>"

definition withCors :: "http_response \<Rightarrow> http_response" where
  "withCors response = fold headers_set corsHeaders response"

definition OPTIONS :: "js_error + http_response" where
  "OPTIONS = map_sum id withCors (new_NextResponse None 204 [])"

definition error_response :: "jstring \<Rightarrow> nat \<Rightarrow> js_error + http_response" where
  "error_response message st =
     map_sum id withCors (NextResponse_json (JObj [(str ''error'', JStr message)]) st)"

subsection \<open>The outbound call\<close>

record chat_message =
  role :: jstring
  content :: jstring

record provider_call =
  url :: jstring
  http_method :: jstring
  content_type :: jstring
  authorization :: jstring
  model :: jstring
  messages :: "chat_message list"
  temperature :: jstring

definition system_prefix :: jstring where
  \<open>system_prefix = str ''You are assisting with drafting a government social support application. Write in the applicant's first-person voice as if they are typing their own paragraph. Keep the tone sincere, respectful, and grounded in practical details. Never use greetings, introductions, or phrases like "Hello" or "My name is". Do not repeat names, ID numbers, phone numbers, or other personal identifiers. Focus tightly on ''\<close>

definition system_suffix :: jstring where
  "system_suffix = str ''. Limit the response to one paragraph under 120 words, avoid bullet lists, and never refer to yourself as an assistant or AI.''"

definition system_content :: "js_value \<Rightarrow> jstring" where
  "system_content focus = system_prefix @ value_to_string focus @ system_suffix"

text \<open>
  An optional field contributes \<^verbatim>\<open>`prefix${value}suffix`\<close> when it is truthy and the empty
  string otherwise; the interpolation converts the value to a string and can throw.
\<close>

fun optional_segment :: "jstring \<Rightarrow> json option \<Rightarrow> jstring \<Rightarrow> js_error + jstring" where
  "optional_segment pre None post = Inr []"
| "optional_segment pre (Some v) post =
     (if truthy v
      then (case to_string v of Inl e \<Rightarrow> Inl e | Inr s \<Rightarrow> Inr (pre @ s @ post))
      else Inr [])"

definition language_sentence :: "json \<Rightarrow> jstring" where
  "language_sentence body =
     str ''Write the paragraph in ''
     @ (if get_member body (str ''language'') = Some (JStr (str ''ar''))
        then str ''Arabic'' else str ''English'')
     @ str ''.''"

definition style_sentence :: jstring where
  "style_sentence = str ''Sound like a real person describing lived experience in a warm but direct way. Do not start with a greeting.''"

text \<open>
  The array of the user message before \<^verbatim>\<open>filter(Boolean)\<close>, then what the filter keeps.
  The elements are evaluated in source order, after the system message, so the first
  conversion that throws decides the error.
\<close>

definition user_array :: "json \<Rightarrow> js_error + js_value list" where
  "user_array body =
     (case property_key (get_member body (str ''field'')) of
        Inl e \<Rightarrow> Inl e
      | Inr key \<Rightarrow>
          (case optional_segment (str ''Applicant context: '')
                  (get_member body (str ''applicantDetails'')) (str ''.'') of
             Inl e \<Rightarrow> Inl e
           | Inr context_segment \<Rightarrow>
               (case optional_segment (str ''Applicant notes: '')
                       (get_member body (str ''existingText'')) [] of
                  Inl e \<Rightarrow> Inl e
                | Inr notes_segment \<Rightarrow>
                    Inr [VString (language_sentence body),
                         VString style_sentence,
                         record_get fieldGuidance key,
                         VString context_segment,
                         VString notes_segment])))"

definition user_segments :: "json \<Rightarrow> js_error + js_value list" where
  "user_segments body = map_sum id (filter value_truthy) (user_array body)"

definition chat_messages :: "json \<Rightarrow> js_error + chat_message list" where
  "chat_messages body =
     (case property_key (get_member body (str ''field'')) of
        Inl e \<Rightarrow> Inl e
      | Inr key \<Rightarrow>
          (case user_segments body of
             Inl e \<Rightarrow> Inl e
           | Inr segments \<Rightarrow>
               Inr [\<lparr>role = str ''system'',
                     content = system_content (record_get fieldFocus key)\<rparr>,
                    \<lparr>role = str ''user'', content = join (str '' '') segments\<rparr>]))"

definition build_call :: "config \<Rightarrow> json \<Rightarrow> js_error + provider_call" where
  "build_call cfg body =
     (case chat_messages body of
        Inl e \<Rightarrow> Inl e
      | Inr ms \<Rightarrow>
          Inr \<lparr>url = str ''https://api.openai.com/v1/chat/completions'',
               http_method = str ''POST'',
               content_type = str ''application/json'',
               authorization = str ''Bearer '' @ OPENAI_API_KEY cfg,
               model = OPENAI_MODEL cfg,
               messages = ms,
               temperature = str ''0.6''\<rparr>)"

subsection \<open>The provider\<close>

text \<open>
  \<^verbatim>\<open>fetch\<close> resolves with a response, rejects with an error, or stays pending; the first
  two happen some milliseconds after the call. The handler arms
  \<^verbatim>\<open>setTimeout(() => controller.abort(), 20000)\<close> before the call and passes the
  controller's signal, so a call that has not settled before the timer fires is aborted and
  rejects with an \<^verbatim>\<open>AbortError\<close>. \<^verbatim>\<open>clearTimeout\<close> runs once \<^verbatim>\<open>fetch\<close> has resolved, so
  reading the body is not under the timer; the body read is given by its outcome.
\<close>

record provider_response =
  provider_status :: nat
  provider_json :: "js_error + json"

datatype fetch_outcome =
    Resolves nat provider_response
  | Rejects nat js_error
  | Pending

definition timeout_ms :: nat where
  "timeout_ms = 20000"

definition AbortError :: js_error where
  "AbortError = \<lparr>err_name = str ''AbortError'',
                  err_message = Some (str ''This operation was aborted'')\<rparr>"

fun settles_before :: "nat \<Rightarrow> fetch_outcome \<Rightarrow> bool" where
  "settles_before deadline (Resolves t r) = (t < deadline)"
| "settles_before deadline (Rejects t e) = (t < deadline)"
| "settles_before deadline Pending = False"

text \<open>The awaited result of the call, and whether the timer fired and aborted it.\<close>

fun await_fetch :: "fetch_outcome \<Rightarrow> (js_error + provider_response) \<times> bool" where
  "await_fetch (Resolves t r) =
     (if t < timeout_ms then (Inr r, False) else (Inl AbortError, True))"
| "await_fetch (Rejects t e) =
     (if t < timeout_ms then (Inl e, False) else (Inl AbortError, True))"
| "await_fetch Pending = (Inl AbortError, True)"

definition ok :: "provider_response \<Rightarrow> bool" where
  "ok response = (200 \<le> provider_status response \<and> provider_status response \<le> 299)"

subsection \<open>The handler\<close>

record next_request =
  request_json :: "js_error + json"

text \<open>
  What one run of \<^verbatim>\<open>POST\<close> does: the value it returns (or the error it throws), the
  \<^verbatim>\<open>fetch\<close> calls it made, in order, and whether the timer aborted a call in flight.
\<close>

record run =
  outcome :: "js_error + http_response"
  calls :: "provider_call list"
  fetch_aborted :: bool

text \<open>Lines 98 to 114: the translation of a response that \<^verbatim>\<open>fetch\<close> resolved with.\<close>

definition error_message_of :: "json \<Rightarrow> jstring" where
  "error_message_of errorPayload =
     (case opt_member (opt_member (Some errorPayload) (str ''error'')) (str ''message'') of
        Some (JStr m) \<Rightarrow> m
      | _ \<Rightarrow> str ''Unable to generate suggestion.'')"

definition content_of :: "json \<Rightarrow> json option" where
  "content_of data =
     opt_member
       (opt_member (opt_index (opt_member (Some data) (str ''choices'')) 0) (str ''message''))
       (str ''content'')"

fun content_trim :: "json option \<Rightarrow> js_error + jstring" where
  "content_trim (Some (JStr s)) = Inr (trim s)"
| "content_trim v = Inl (TypeError (str ''content.trim is not a function''))"

definition handle_response :: "provider_response \<Rightarrow> js_error + http_response" where
  "handle_response response =
     (if \<not> ok response
      then (let errorPayload = (case provider_json response of
                                  Inl e \<Rightarrow> JObj [] | Inr v \<Rightarrow> v)
            in error_response (error_message_of errorPayload) (provider_status response))
      else (case provider_json response of
              Inl e \<Rightarrow> Inl e
            | Inr data \<Rightarrow>
                (if \<not> truthy_opt (content_of data)
                 then error_response (str ''No suggestion received.'') 500
                 else (case content_trim (content_of data) of
                         Inl e \<Rightarrow> Inl e
                       | Inr suggestion \<Rightarrow>
                           map_sum id withCors
                             (NextResponse_json
                                (JObj [(str ''suggestion'', JStr suggestion)]) 200)))))"

text \<open>
  The \<^verbatim>\<open>try\<close> block. An \<open>Inl\<close> in the first component is an exception on its way to the
  \<^verbatim>\<open>catch\<close> clause.
\<close>

definition try_block ::
    "config \<Rightarrow> next_request \<Rightarrow> (provider_call \<Rightarrow> fetch_outcome) \<Rightarrow> run" where
  "try_block cfg request provider =
     (case request_json request of
        Inl e \<Rightarrow> \<lparr>outcome = Inl e, calls = [], fetch_aborted = False\<rparr>
      | Inr body \<Rightarrow>
          (if \<not> truthy_opt (opt_member (Some body) (str ''field''))
                \<or> \<not> truthy_opt (opt_member (Some body) (str ''language''))
           then \<lparr>outcome = error_response (str ''Missing required fields.'') 400,
                  calls = [], fetch_aborted = False\<rparr>
           else (case build_call cfg body of
                   Inl e \<Rightarrow> \<lparr>outcome = Inl e, calls = [], fetch_aborted = False\<rparr>
                 | Inr call \<Rightarrow>
                     (case await_fetch (provider call) of
                        (Inl e, aborted) \<Rightarrow>
                          \<lparr>outcome = Inl e, calls = [call], fetch_aborted = aborted\<rparr>
                      | (Inr response, aborted) \<Rightarrow>
                          \<lparr>outcome = handle_response response, calls = [call],
                            fetch_aborted = aborted\<rparr>))))"

text \<open>The \<^verbatim>\<open>catch\<close> clause (lines 115 to 122).\<close>

definition catch_block :: "js_error \<Rightarrow> js_error + http_response" where
  "catch_block error =
     (if err_name error = str ''AbortError''
      then error_response (str ''The request timed out.'') 504
      else error_response
             (case err_message error of
                Some m \<Rightarrow> m | None \<Rightarrow> str ''Unable to generate suggestion.'')
             500)"

definition POST ::
    "config \<Rightarrow> next_request \<Rightarrow> (provider_call \<Rightarrow> fetch_outcome) \<Rightarrow> run" where
  "POST cfg request provider =
     (let r = try_block cfg request provider
      in (case outcome r of
            Inl error \<Rightarrow> r\<lparr>outcome := catch_block error\<rparr>
          | Inr response \<Rightarrow> r))"

section \<open>Vocabulary of the properties\<close>

text \<open>A run answered with the given status and JSON body.\<close>

definition responds :: "run \<Rightarrow> nat \<Rightarrow> json \<Rightarrow> bool" where
  "responds r st b =
     (case outcome r of
        Inl e \<Rightarrow> False
      | Inr response \<Rightarrow> status response = st \<and> json_body response = Some b)"

definition error_body :: "jstring \<Rightarrow> json" where
  "error_body m = JObj [(str ''error'', JStr m)]"

definition suggestion_body :: "jstring \<Rightarrow> json" where
  "suggestion_body s = JObj [(str ''suggestion'', JStr s)]"

text \<open>A handler returned a response that carries the three cross-origin headers.\<close>

definition has_cors :: "js_error + http_response \<Rightarrow> bool" where
  "has_cors result =
     (case result of
        Inl e \<Rightarrow> False
      | Inr response \<Rightarrow>
          map_of (headers response) (str ''Access-Control-Allow-Origin'') = Some (str ''*'')
          \<and> map_of (headers response) (str ''Access-Control-Allow-Methods'')
              = Some (str ''POST, OPTIONS'')
          \<and> map_of (headers response) (str ''Access-Control-Allow-Headers'')
              = Some (str ''Content-Type, Authorization''))"

text \<open>A property that is not there, is \<^verbatim>\<open>null\<close>, or is the empty string.\<close>

definition absent_or_empty :: "json option \<Rightarrow> bool" where
  "absent_or_empty v = (v = None \<or> v = Some JNull \<or> v = Some (JStr []))"

text \<open>
  The message the error response is said to carry: the string at \<^verbatim>\<open>error.message\<close> of the
  provider's JSON body when the body parsed, is an object, has an object under \<^verbatim>\<open>error\<close> and
  a string under \<^verbatim>\<open>message\<close> there; the generic message in every other case.
\<close>

fun claimed_error_message :: "js_error + json \<Rightarrow> jstring" where
  "claimed_error_message (Inr (JObj kvs)) =
     (case map_of kvs (str ''error'') of
        Some (JObj kvs') \<Rightarrow>
          (case map_of kvs' (str ''message'') of
             Some (JStr m) \<Rightarrow> m
           | _ \<Rightarrow> str ''Unable to generate suggestion.'')
      | _ \<Rightarrow> str ''Unable to generate suggestion.'')"
| "claimed_error_message other = str ''Unable to generate suggestion.''"

text \<open>
  An optional property whose interpolation into the prompt cannot throw: it is not there, or
  its conversion to a string succeeds (as it does for every string).
\<close>

fun convertible :: "json option \<Rightarrow> bool" where
  "convertible None = True"
| "convertible (Some v) = (case to_string v of Inl e \<Rightarrow> False | Inr s \<Rightarrow> True)"

text \<open>
  A request of the declared type \<^verbatim>\<open>RequestBody\<close>: \<^verbatim>\<open>field\<close> is one of the three values,
  \<^verbatim>\<open>language\<close> is \<^verbatim>\<open>en\<close> or \<^verbatim>\<open>ar\<close>, and each optional field is a string when it is
  there.
\<close>

fun optional_text :: "json option \<Rightarrow> bool" where
  "optional_text None = True"
| "optional_text (Some (JStr s)) = True"
| "optional_text (Some v) = False"

definition valid_request :: "json \<Rightarrow> bool" where
  "valid_request body =
     ((case get_member body (str ''field'') of
         Some (JStr f) \<Rightarrow> f \<in> set suggestion_fields
       | _ \<Rightarrow> False)
      \<and> (get_member body (str ''language'') = Some (JStr (str ''en''))
           \<or> get_member body (str ''language'') = Some (JStr (str ''ar'')))
      \<and> optional_text (get_member body (str ''applicantDetails''))
      \<and> optional_text (get_member body (str ''existingText'')))"

subsection \<open>Sample inputs\<close>

definition demo_config :: config where
  "demo_config = \<lparr>OPENAI_API_KEY = str ''sk-demo'', OPENAI_MODEL = str ''gpt-4o-mini''\<rparr>"

definition parsed :: "json \<Rightarrow> next_request" where
  "parsed body = \<lparr>request_json = Inr body\<rparr>"

definition valid_body :: json where
  "valid_body =
     JObj [(str ''field'', JStr (str ''reasonForApplying'')),
           (str ''language'', JStr (str ''en'')),
           (str ''applicantDetails'', JStr (str ''Two children''))]"

definition pending_provider :: "provider_call \<Rightarrow> fetch_outcome" where
  "pending_provider call = Pending"

definition reply_after :: "nat \<Rightarrow> provider_response \<Rightarrow> provider_call \<Rightarrow> fetch_outcome" where
  "reply_after t response call = Resolves t response"

definition language_only_body :: json where
  "language_only_body = JObj [(str ''language'', JStr (str ''en''))]"

definition malformed_request :: next_request where
  "malformed_request =
     \<lparr>request_json = Inl \<lparr>err_name = str ''SyntaxError'',
                             err_message = Some (str ''Unexpected end of JSON input'')\<rparr>\<rparr>"

definition demo_call :: provider_call where
  "demo_call =
     \<lparr>url = str ''https://api.openai.com/v1/chat/completions'',
      http_method = str ''POST'',
      content_type = str ''application/json'',
      authorization = str ''Bearer sk-demo'',
      model = str ''gpt-4o-mini'',
      messages =
        [\<lparr>role = str ''system'',
          content = system_prefix
            @ str ''specific reasons for seeking support now, the type of assistance needed, and how it will help meet urgent household needs''
            @ system_suffix\<rparr>,
         \<lparr>role = str ''user'',
          content = str ''Write the paragraph in English. Sound like a real person describing lived experience in a warm but direct way. Do not start with a greeting. Lead with the immediate need for assistance and connect it to day-to-day realities. Highlight how support would be used. Avoid greetings or introductions. Applicant context: Two children.''\<rparr>],
      temperature = str ''0.6''\<rparr>"

definition quota_response :: "nat \<Rightarrow> provider_response" where
  "quota_response st =
     \<lparr>provider_status = st,
      provider_json =
        Inr (JObj [(str ''error'', JObj [(str ''message'', JStr (str ''quota exceeded''))])])\<rparr>"

definition completion :: "json \<Rightarrow> provider_response" where
  "completion message =
     \<lparr>provider_status = 200,
      provider_json = Inr (JObj [(str ''choices'', JArr [JObj [(str ''message'', message)]])])\<rparr>"

definition plain_body :: json where
  "plain_body =
     JObj [(str ''field'', JStr (str ''currentFinancialSituation'')),
           (str ''language'', JStr (str ''ar''))]"

definition plain_call :: provider_call where
  "plain_call =
     \<lparr>url = str ''https://api.openai.com/v1/chat/completions'',
      http_method = str ''POST'',
      content_type = str ''application/json'',
      authorization = str ''Bearer sk-demo'',
      model = str ''gpt-4o-mini'',
      messages =
        [\<lparr>role = str ''system'',
          content = system_prefix
            @ str ''current income sources, essential expenses, debts, and concrete examples of financial strain or recent hardship''
            @ system_suffix\<rparr>,
         \<lparr>role = str ''user'',
          content = str ''Write the paragraph in Arabic. Sound like a real person describing lived experience in a warm but direct way. Do not start with a greeting. Begin with the main financial pressure (for example rising bills, debt, or reduced income). Mention amounts when they help explain the strain. Avoid greetings or introductions.''\<rparr>],
      temperature = str ''0.6''\<rparr>"

definition toString_body :: json where
  "toString_body =
     JObj [(str ''field'', JStr (str ''toString'')), (str ''language'', JStr (str ''en''))]"

definition housing_body :: json where
  "housing_body =
     JObj [(str ''field'', JStr (str ''housing'')), (str ''language'', JStr (str ''en''))]"

section \<open>Basic facts\<close>

lemma of_char_word16_eq_iff: "((of_char a :: 16 word) = of_char b) = (a = b)"
proof
  assume h: "(of_char a :: 16 word) = of_char b"
  have a: "(of_char a :: nat) < 2 ^ 16"
    by (rule order_less_trans [OF nat_of_char_less_256]) simp
  have b: "(of_char b :: nat) < 2 ^ 16"
    by (rule order_less_trans [OF nat_of_char_less_256]) simp
  have "(of_nat (of_char a) :: 16 word) = of_nat (of_char b)"
    using h by (simp only: of_nat_of_char)
  then have "unat (of_nat (of_char a) :: 16 word) = unat (of_nat (of_char b) :: 16 word)"
    by simp
  then have "(of_char a :: nat) = of_char b"
    using a b by (simp add: unat_of_nat take_bit_nat_eq_self)
  then show "a = b" by (simp only: of_char_eq_iff)
qed simp

lemma str_eq_iff: "(str a = str b) = (a = b)"
  unfolding str_def by (simp add: inj_map_eq_map inj_def of_char_word16_eq_iff)

lemma str_Nil_iff: "(str a = []) = (a = [])"
  by (simp add: str_def)

lemma not_prefix_str_first:
  "a \<noteq> b \<Longrightarrow> \<not> prefix (str (a # as)) (str (b # bs) @ x)"
  by (simp add: str_def of_char_word16_eq_iff)

subsection \<open>Responses\<close>

lemma withCors_fields:
  "status (withCors r) = status r" "json_body (withCors r) = json_body r"
  by (simp_all add: withCors_def corsHeaders_def headers_set_def)

lemma withCors_has_cors: "has_cors (Inr (withCors r))"
  by (simp add: has_cors_def withCors_def corsHeaders_def headers_set_def
      update_conv' str_eq_iff)

lemma error_response_eq:
  \<open>error_response m st =
     (if st < 200 \<or> 599 < st
      then Inl (RangeError (str ''init["status"] must be in the range of 200 to 599, inclusive.''))
      else if st = 204 \<or> st = 205 \<or> st = 304
      then Inl (TypeError (str ''Response constructor: Invalid response status code '' @ decimal st))
      else Inr (withCors \<lparr>status = st,
                  headers = [(str ''content-type'', str ''application/json'')],
                  json_body = Some (JObj [(str ''error'', JStr m)])\<rparr>))\<close>
  by (auto simp add: error_response_def NextResponse_json_def new_NextResponse_def
      null_body_status_def)

lemma catch_block_has_cors: "has_cors (catch_block e)"
  by (simp add: catch_block_def error_response_eq withCors_has_cors)

lemma map_sum_withCors_has_cors:
  "map_sum id withCors x = Inr r \<Longrightarrow> has_cors (Inr r)"
  by (cases x) (auto simp add: withCors_has_cors)

lemma error_response_has_cors: "error_response m st = Inr r \<Longrightarrow> has_cors (Inr r)"
  unfolding error_response_def by (rule map_sum_withCors_has_cors)

lemma handle_response_has_cors: "handle_response response = Inr r \<Longrightarrow> has_cors (Inr r)"
  unfolding handle_response_def
  by (auto simp add: Let_def split: if_splits sum.splits
      dest: error_response_has_cors map_sum_withCors_has_cors)

lemma try_block_has_cors:
  "outcome (try_block cfg request provider) = Inr r \<Longrightarrow> has_cors (Inr r)"
  unfolding try_block_def
  by (auto split: sum.splits if_splits prod.splits
      dest: error_response_has_cors handle_response_has_cors)

lemma opt_member_Some: "opt_member (Some v) k = get_member v k"
  by (cases v) simp_all

lemma absent_or_empty_not_truthy: "absent_or_empty v \<Longrightarrow> \<not> truthy_opt v"
  by (auto simp add: absent_or_empty_def)

lemma responds_error_response:
  "200 \<le> st \<Longrightarrow> st \<le> 599 \<Longrightarrow> st \<noteq> 204 \<Longrightarrow> st \<noteq> 205 \<Longrightarrow> st \<noteq> 304 \<Longrightarrow>
   outcome r = error_response m st \<Longrightarrow> responds r st (error_body m)"
  by (simp add: responds_def error_response_eq withCors_fields error_body_def)

subsection \<open>The shape of a run\<close>

lemma POST_unparsed:
  "request_json request = Inl e \<Longrightarrow>
   POST cfg request provider = \<lparr>outcome = catch_block e, calls = [], fetch_aborted = False\<rparr>"
  by (simp add: POST_def try_block_def)

lemma POST_rejected:
  "request_json request = Inr body \<Longrightarrow>
   \<not> truthy_opt (get_member body (str ''field''))
     \<or> \<not> truthy_opt (get_member body (str ''language'')) \<Longrightarrow>
   POST cfg request provider =
     \<lparr>outcome = error_response (str ''Missing required fields.'') 400,
      calls = [], fetch_aborted = False\<rparr>"
  by (auto simp add: POST_def try_block_def opt_member_Some error_response_eq)

lemma POST_called:
  "request_json request = Inr body \<Longrightarrow>
   truthy_opt (get_member body (str ''field'')) \<Longrightarrow>
   truthy_opt (get_member body (str ''language'')) \<Longrightarrow>
   build_call cfg body = Inr call \<Longrightarrow>
   POST cfg request provider =
     \<lparr>outcome =
        (case fst (await_fetch (provider call)) of
           Inl e \<Rightarrow> catch_block e
         | Inr response \<Rightarrow>
             (case handle_response response of
                Inl e \<Rightarrow> catch_block e | Inr r \<Rightarrow> Inr r)),
      calls = [call],
      fetch_aborted = snd (await_fetch (provider call))\<rparr>"
  by (auto simp add: POST_def try_block_def opt_member_Some split: sum.splits prod.splits)

lemma POST_calls_cases:
  assumes "call \<in> set (calls (POST cfg request provider))"
  obtains body where "request_json request = Inr body"
    and "truthy_opt (get_member body (str ''field''))"
    and "truthy_opt (get_member body (str ''language''))"
    and "build_call cfg body = Inr call"
  using assms
  by (auto simp add: POST_def try_block_def opt_member_Some Let_def
      split: sum.splits prod.splits if_splits)

lemma await_fetch_unsettled:
  "\<not> settles_before 20000 outcome' \<Longrightarrow> await_fetch outcome' = (Inl AbortError, True)"
  by (cases outcome') (simp_all add: timeout_ms_def)

lemma catch_block_AbortError:
  "catch_block AbortError = error_response (str ''The request timed out.'') 504"
  by (simp add: catch_block_def AbortError_def)

lemma POST_resolved:
  assumes "call \<in> set (calls (POST cfg request provider))"
    and "provider call = Resolves t response" and "t < 20000"
  shows "outcome (POST cfg request provider) =
           (case handle_response response of Inl e \<Rightarrow> catch_block e | Inr r \<Rightarrow> Inr r)"
proof -
  from assms(1) obtain body where b: "request_json request = Inr body"
      "truthy_opt (get_member body (str ''field''))"
      "truthy_opt (get_member body (str ''language''))"
      "build_call cfg body = Inr call"
    by (rule POST_calls_cases)
  show ?thesis
    using assms(3) by (simp add: POST_called [OF b] assms(2) timeout_ms_def)
qed

lemma error_message_of_claimed:
  "error_message_of (case pj of Inl e \<Rightarrow> JObj [] | Inr v \<Rightarrow> v) = claimed_error_message pj"
proof (cases pj)
  case (Inl e)
  then show ?thesis by (simp add: error_message_of_def)
next
  case (Inr v)
  show ?thesis
  proof (cases v)
    case (JObj kvs)
    show ?thesis
    proof (cases "map_of kvs (str ''error'')")
      case None
      with Inr JObj show ?thesis by (simp add: error_message_of_def)
    next
      case (Some w)
      with Inr JObj show ?thesis
        by (cases w) (simp_all add: error_message_of_def split: option.splits json.splits)
    qed
  qed (simp_all add: Inr error_message_of_def)
qed

lemma POST_calls:
  "request_json request = Inr body \<Longrightarrow>
   truthy_opt (get_member body (str ''field'')) \<Longrightarrow>
   truthy_opt (get_member body (str ''language'')) \<Longrightarrow>
   build_call cfg body = Inr call \<Longrightarrow>
   calls (POST cfg request provider) = [call]"
  by (simp add: POST_called)

lemma handle_response_no_content:
  "ok response \<Longrightarrow> provider_json response = Inr data \<Longrightarrow> \<not> truthy_opt (content_of data) \<Longrightarrow>
   handle_response response = error_response (str ''No suggestion received.'') 500"
  by (simp add: handle_response_def)

lemma handle_response_text:
  "ok response \<Longrightarrow> provider_json response = Inr data \<Longrightarrow>
   content_of data = Some (JStr c) \<Longrightarrow> c \<noteq> [] \<Longrightarrow>
   handle_response response =
     Inr (withCors \<lparr>status = 200,
            headers = [(str ''content-type'', str ''application/json'')],
            json_body = Some (suggestion_body (trim c))\<rparr>)"
  by (simp add: handle_response_def NextResponse_json_def new_NextResponse_def
      null_body_status_def suggestion_body_def)

lemma handle_response_non_text:
  "ok response \<Longrightarrow> provider_json response = Inr data \<Longrightarrow>
   content_of data = Some v \<Longrightarrow> truthy v \<Longrightarrow> (case v of JStr s \<Rightarrow> False | _ \<Rightarrow> True) \<Longrightarrow>
   handle_response response = Inl (TypeError (str ''content.trim is not a function''))"
  by (cases v) (simp_all add: handle_response_def)

lemma content_of_completion:
  "content_of (JObj [(str ''choices'',
       JArr [JObj [(str ''message'', JObj [(str ''content'', v)])]])]) = Some v"
  by (simp add: content_of_def str_eq_iff)

subsection \<open>Trimming\<close>

lemma rev_dropWhile_takeWhile:
  "xs = rev (dropWhile P (rev xs)) @ rev (takeWhile P (rev xs))"
  by (metis rev_append rev_rev_ident takeWhile_dropWhile_id)

lemma dropWhile_trim:
  "dropWhile is_white_space c
     = trim c @ rev (takeWhile is_white_space (rev (dropWhile is_white_space c)))"
  unfolding trim_def by (rule rev_dropWhile_takeWhile)

lemma list_all_takeWhile: "list_all P (takeWhile P xs)"
  by (induction xs) simp_all

lemma trim_decompose:
  "\<exists>l r. c = l @ trim c @ r \<and> list_all is_white_space l \<and> list_all is_white_space r"
proof -
  let ?l = "takeWhile is_white_space c"
  let ?r = "rev (takeWhile is_white_space (rev (dropWhile is_white_space c)))"
  have "c = ?l @ dropWhile is_white_space c" by simp
  also have "dropWhile is_white_space c = trim c @ ?r" by (rule dropWhile_trim)
  finally have "c = ?l @ trim c @ ?r" .
  moreover have "list_all is_white_space ?l" by (rule list_all_takeWhile)
  moreover have "list_all is_white_space ?r" by (simp add: list_all_takeWhile)
  ultimately show ?thesis by blast
qed

lemma takeWhile_dropWhile_Nil: "takeWhile P (dropWhile P xs) = []"
  by (induction xs) simp_all

lemma trim_no_trailing: "takeWhile is_white_space (rev (trim c)) = []"
  by (simp add: trim_def takeWhile_dropWhile_Nil)

lemma trim_no_leading: "takeWhile is_white_space (trim c) = []"
proof (cases "trim c")
  case Nil
  then show ?thesis by simp
next
  case (Cons x xs)
  have "dropWhile is_white_space c
      = x # xs @ rev (takeWhile is_white_space (rev (dropWhile is_white_space c)))"
    using dropWhile_trim [of c] Cons by simp
  then have "\<not> is_white_space x"
    by (metis hd_dropWhile list.sel(1) list.distinct(1))
  then show ?thesis using Cons by simp
qed

lemma trim_all_white_space: "list_all is_white_space c \<Longrightarrow> trim c = []"
  by (induction c) (simp_all add: trim_def)

lemma trim_hello: "trim (str ''  Hello world.  '') = str ''Hello world.''"
  by (simp add: trim_def str_def is_white_space_def)

subsection \<open>The prompt\<close>

lemma optional_segment_absent:
  "absent_or_empty v \<Longrightarrow> optional_segment pre v post = Inr []"
  by (auto simp add: absent_or_empty_def)

lemma optional_segment_string:
  "d \<noteq> [] \<Longrightarrow> optional_segment pre (Some (JStr d)) post = Inr (pre @ d @ post)"
  by simp

lemma optional_segment_shape:
  "optional_segment pre v post = Inr s \<Longrightarrow> s = [] \<or> prefix pre s"
  by (cases v) (auto split: if_splits sum.splits)

lemma optional_segment_convertible:
  "convertible v \<Longrightarrow> \<exists>s. optional_segment pre v post = Inr s"
  by (cases v) (auto split: sum.splits)

lemma value_truthy_join_item: "value_truthy v \<Longrightarrow> join_item v \<noteq> []"
  by (cases v) (simp_all add: str_def)

lemma guidance_first_unit:
  "\<not> prefix (str ''A'') (join_item (record_get fieldGuidance key))"
proof (cases "record_get fieldGuidance key")
  case (VString s)
  then have "(key, s) \<in> set fieldGuidance"
    by (auto simp add: record_get_def object_prototype_get_def
        split: option.splits if_splits dest!: map_of_SomeD)
  then show ?thesis
    using VString
    by (auto simp add: fieldGuidance_def not_prefix_str_first [where x = "[]", simplified])
next
  case (VFunction n)
  have "\<not> prefix (str ''A'') (str ''function '' @ (n @ str ''() { [native code] }''))"
    by (rule not_prefix_str_first) simp
  then show ?thesis using VFunction by simp
next
  case VObjectPrototype
  have "\<not> prefix (str ''A'') (str ''[object Object]'' @ [])"
    by (rule not_prefix_str_first) simp
  then show ?thesis using VObjectPrototype by simp
next
  case VUndefined
  then show ?thesis by (simp add: str_def)
qed

lemma sublist_join_item: "x \<in> set xs \<Longrightarrow> sublist (join_item x) (join sep xs)"
proof (induction sep xs rule: join.induct)
  case (1 sep)
  then show ?case by simp
next
  case (2 sep y)
  then show ?case by simp
next
  case (3 sep y z zs)
  show ?case
  proof (cases "x = y")
    case True
    then show ?thesis by (simp add: sublist_append_rightI)
  next
    case False
    with 3 have "sublist (join_item x) (join sep (z # zs))" by simp
    then have "sublist (join_item x) ((join_item y @ sep) @ join sep (z # zs) @ [])"
      by (rule sublist_order.order_trans) (rule sublist_appendI)
    then show ?thesis by simp
  qed
qed

lemma user_array_shape:
  assumes "user_array body = Inr arr"
  obtains key context_segment notes_segment where
    "property_key (get_member body (str ''field'')) = Inr key"
    "optional_segment (str ''Applicant context: '')
       (get_member body (str ''applicantDetails'')) (str ''.'') = Inr context_segment"
    "optional_segment (str ''Applicant notes: '')
       (get_member body (str ''existingText'')) [] = Inr notes_segment"
    "arr = [VString (language_sentence body), VString style_sentence,
            record_get fieldGuidance key, VString context_segment, VString notes_segment]"
  using assms by (auto simp add: user_array_def split: sum.splits)

lemma build_call_shape:
  assumes "build_call cfg body = Inr call"
  obtains key arr where
    "property_key (get_member body (str ''field'')) = Inr key"
    "user_array body = Inr arr"
    "user_segments body = Inr (filter value_truthy arr)"
    "messages call =
       [\<lparr>role = str ''system'', content = system_content (record_get fieldFocus key)\<rparr>,
        \<lparr>role = str ''user'', content = join (str '' '') (filter value_truthy arr)\<rparr>]"
proof -
  from assms obtain ms where ms: "chat_messages body = Inr ms" and c: "messages call = ms"
    by (auto simp add: build_call_def split: sum.splits)
  from ms obtain key segments where k: "property_key (get_member body (str ''field'')) = Inr key"
    and s: "user_segments body = Inr segments"
    and m: "ms = [\<lparr>role = str ''system'', content = system_content (record_get fieldFocus key)\<rparr>,
        \<lparr>role = str ''user'', content = join (str '' '') segments\<rparr>]"
    by (auto simp add: chat_messages_def split: sum.splits)
  from s obtain arr where a: "user_array body = Inr arr" and f: "segments = filter value_truthy arr"
    by (cases "user_array body") (auto simp add: user_segments_def)
  show ?thesis
    using k a s m c f by (intro that [of key arr]) simp_all
qed

lemma not_context_language: "\<not> prefix (str ''Applicant context'') (language_sentence body)"
  unfolding language_sentence_def by (rule not_prefix_str_first) simp

lemma not_notes_language: "\<not> prefix (str ''Applicant notes'') (language_sentence body)"
  unfolding language_sentence_def by (rule not_prefix_str_first) simp

lemma not_context_style: "\<not> prefix (str ''Applicant context'') style_sentence"
  unfolding style_sentence_def by (simp add: str_def)

lemma not_notes_style: "\<not> prefix (str ''Applicant notes'') style_sentence"
  unfolding style_sentence_def by (simp add: str_def)

lemma not_context_guidance:
  "\<not> prefix (str ''Applicant context'') (join_item (record_get fieldGuidance key))"
proof
  assume "prefix (str ''Applicant context'') (join_item (record_get fieldGuidance key))"
  moreover have "prefix (str ''A'') (str ''Applicant context'')" by (simp add: str_def)
  ultimately have "prefix (str ''A'') (join_item (record_get fieldGuidance key))"
    by (rule prefix_order.order_trans [rotated])
  then show False by (simp add: guidance_first_unit)
qed

lemma not_notes_guidance:
  "\<not> prefix (str ''Applicant notes'') (join_item (record_get fieldGuidance key))"
proof
  assume "prefix (str ''Applicant notes'') (join_item (record_get fieldGuidance key))"
  moreover have "prefix (str ''A'') (str ''Applicant notes'')" by (simp add: str_def)
  ultimately have "prefix (str ''A'') (join_item (record_get fieldGuidance key))"
    by (rule prefix_order.order_trans [rotated])
  then show False by (simp add: guidance_first_unit)
qed

lemma notes_is_not_context:
  "prefix (str ''Applicant notes: '') s \<Longrightarrow> \<not> prefix (str ''Applicant context'') s"
proof
  assume "prefix (str ''Applicant notes: '') s" and "prefix (str ''Applicant context'') s"
  then have "prefix (str ''Applicant notes: '') (str ''Applicant context'')
      \<or> prefix (str ''Applicant context'') (str ''Applicant notes: '')"
    by (rule prefix_same_cases)
  then show False by (simp add: str_def)
qed

lemma context_is_not_notes:
  "prefix (str ''Applicant context: '') s \<Longrightarrow> \<not> prefix (str ''Applicant notes'') s"
proof
  assume "prefix (str ''Applicant context: '') s" and "prefix (str ''Applicant notes'') s"
  then have "prefix (str ''Applicant context: '') (str ''Applicant notes'')
      \<or> prefix (str ''Applicant notes'') (str ''Applicant context: '')"
    by (rule prefix_same_cases)
  then show False by (simp add: str_def)
qed

lemma tables_keys:
  "map fst fieldFocus = suggestion_fields" "map fst fieldGuidance = suggestion_fields"
  by (simp_all add: fieldFocus_def fieldGuidance_def suggestion_fields_def)

lemma unlisted_no_entry:
  assumes "f \<notin> set suggestion_fields"
  shows "map_of fieldFocus f = None" "map_of fieldGuidance f = None"
proof -
  have "f \<notin> set (map fst fieldFocus)" "f \<notin> set (map fst fieldGuidance)"
    using assms by (simp_all add: tables_keys)
  then show "map_of fieldFocus f = None" "map_of fieldGuidance f = None"
    by (simp_all add: map_of_eq_None_iff)
qed

lemma optional_text_convertible: "optional_text v \<Longrightarrow> convertible v"
  by (induction v rule: optional_text.induct) simp_all

lemma valid_request_calls_provider:
  assumes "request_json request = Inr body" and "valid_request body"
  shows "\<exists>call. build_call cfg body = Inr call \<and> calls (POST cfg request provider) = [call]"
proof -
  from assms(2) obtain f where f: "get_member body (str ''field'') = Some (JStr f)"
    and member: "f \<in> set suggestion_fields"
    by (auto simp add: valid_request_def split: option.splits json.splits)
  from member have "f \<noteq> []" by (auto simp add: suggestion_fields_def str_def)
  with f have field: "truthy_opt (get_member body (str ''field''))" by simp
  have language: "truthy_opt (get_member body (str ''language''))"
    using assms(2) by (auto simp add: valid_request_def str_Nil_iff)
  have "optional_text (get_member body (str ''applicantDetails''))"
    and "optional_text (get_member body (str ''existingText''))"
    using assms(2) by (simp_all add: valid_request_def)
  then have c: "convertible (get_member body (str ''applicantDetails''))"
    and n: "convertible (get_member body (str ''existingText''))"
    by (simp_all add: optional_text_convertible)
  obtain ctx where ctx: "optional_segment (str ''Applicant context: '')
       (get_member body (str ''applicantDetails'')) (str ''.'') = Inr ctx"
    using optional_segment_convertible [OF c] by blast
  obtain nts where nts: "optional_segment (str ''Applicant notes: '')
       (get_member body (str ''existingText'')) [] = Inr nts"
    using optional_segment_convertible [OF n] by blast
  have "\<exists>call. build_call cfg body = Inr call"
    by (simp add: build_call_def chat_messages_def user_segments_def user_array_def f ctx nts)
  then obtain call where "build_call cfg body = Inr call" ..
  with assms(1) field language show ?thesis by (auto simp add: POST_calls)
qed

subsection \<open>The sample requests\<close>

lemma valid_body_call: "build_call demo_config valid_body = Inr demo_call"
  by (simp add: build_call_def chat_messages_def user_segments_def user_array_def
      valid_body_def demo_config_def demo_call_def str_eq_iff str_Nil_iff record_get_def
      fieldFocus_def fieldGuidance_def system_content_def language_sentence_def
      style_sentence_def)
     (simp add: str_def)

lemma demo_calls: "calls (POST demo_config (parsed valid_body) provider) = [demo_call]"
proof -
  have "request_json (parsed valid_body) = Inr valid_body"
    by (simp add: parsed_def)
  moreover have "truthy_opt (get_member valid_body (str ''field''))"
    by (simp add: valid_body_def str_eq_iff str_Nil_iff)
  moreover have "truthy_opt (get_member valid_body (str ''language''))"
    by (simp add: valid_body_def str_eq_iff str_Nil_iff)
  ultimately show ?thesis
    using valid_body_call by (simp add: POST_called)
qed

lemma plain_body_call: "build_call demo_config plain_body = Inr plain_call"
  by (simp add: build_call_def chat_messages_def user_segments_def user_array_def
      plain_body_def demo_config_def plain_call_def str_eq_iff str_Nil_iff record_get_def
      fieldFocus_def fieldGuidance_def system_content_def language_sentence_def
      style_sentence_def)
     (simp add: str_def)

lemma plain_calls: "calls (POST demo_config (parsed plain_body) provider) = [plain_call]"
  by (rule POST_calls [OF _ _ _ plain_body_call])
     (simp_all add: parsed_def plain_body_def str_eq_iff str_Nil_iff)

lemma toString_calls:
  "map messages (calls (POST demo_config (parsed toString_body) provider)) =
     [[\<lparr>role = str ''system'',
        content = system_prefix @ str ''function toString() { [native code] }'' @ system_suffix\<rparr>,
       \<lparr>role = str ''user'',
        content = str ''Write the paragraph in English. Sound like a real person describing lived experience in a warm but direct way. Do not start with a greeting. function toString() { [native code] }''\<rparr>]]"
proof -
  have "\<exists>call. build_call demo_config toString_body = Inr call \<and> messages call =
     [\<lparr>role = str ''system'',
        content = system_prefix @ str ''function toString() { [native code] }'' @ system_suffix\<rparr>,
       \<lparr>role = str ''user'',
        content = str ''Write the paragraph in English. Sound like a real person describing lived experience in a warm but direct way. Do not start with a greeting. function toString() { [native code] }''\<rparr>]"
    by (simp add: build_call_def chat_messages_def user_segments_def user_array_def
        toString_body_def str_eq_iff str_Nil_iff record_get_def fieldFocus_def fieldGuidance_def
        object_prototype_get_def object_prototype_functions_def system_content_def
        language_sentence_def style_sentence_def)
       (simp add: str_def)
  then obtain call where c: "build_call demo_config toString_body = Inr call"
    and m: "messages call =
     [\<lparr>role = str ''system'',
        content = system_prefix @ str ''function toString() { [native code] }'' @ system_suffix\<rparr>,
       \<lparr>role = str ''user'',
        content = str ''Write the paragraph in English. Sound like a real person describing lived experience in a warm but direct way. Do not start with a greeting. function toString() { [native code] }''\<rparr>]"
    by blast
  have "calls (POST demo_config (parsed toString_body) provider) = [call]"
    by (rule POST_calls [OF _ _ _ c])
       (simp_all add: parsed_def toString_body_def str_eq_iff str_Nil_iff)
  then show ?thesis by (simp add: m)
qed

lemma housing_array:
  "user_array housing_body =
     Inr [VString (language_sentence housing_body), VString style_sentence, VUndefined,
          VString [], VString []]"
  by (simp add: user_array_def housing_body_def str_eq_iff record_get_def fieldGuidance_def
      object_prototype_get_def object_prototype_functions_def)

lemma valid_body_valid: "valid_request valid_body" "valid_request plain_body"
  by (simp_all add: valid_request_def valid_body_def plain_body_def suggestion_fields_def
      str_eq_iff)

section \<open>The properties\<close>

text \<open>
  \<^bold>\<open>C1.\<close> When the body parses as JSON but has no non-empty \<^verbatim>\<open>field\<close> or no non-empty
  \<^verbatim>\<open>language\<close> (the property is not there, is \<^verbatim>\<open>null\<close> or is the empty string; a body
  that is not an object has neither), \<^verbatim>\<open>POST\<close> answers 400 with
  \<^verbatim>\<open>{ "error": "Missing required fields." }\<close> and makes no call to the provider.
\<close>

theorem missing_required_fields_rejected:
  assumes "request_json request = Inr body"
    and "absent_or_empty (get_member body (str ''field''))
         \<or> absent_or_empty (get_member body (str ''language''))"
  shows "responds (POST cfg request provider) 400 (error_body (str ''Missing required fields.''))
         \<and> calls (POST cfg request provider) = []"
proof -
  from assms(2) have "\<not> truthy_opt (get_member body (str ''field''))
      \<or> \<not> truthy_opt (get_member body (str ''language''))"
    by (auto dest: absent_or_empty_not_truthy)
  from POST_rejected [OF assms(1) this, of cfg provider] show ?thesis
    by (simp add: responds_error_response)
qed

theorem missing_required_fields_rejected_witness:
  "request_json (parsed language_only_body) = Inr language_only_body
   \<and> absent_or_empty (get_member language_only_body (str ''field''))
   \<and> responds (POST demo_config (parsed language_only_body) pending_provider) 400
        (error_body (str ''Missing required fields.''))
   \<and> calls (POST demo_config (parsed language_only_body) pending_provider) = []"
proof -
  have a: "request_json (parsed language_only_body) = Inr language_only_body"
    by (simp add: parsed_def)
  have b: "absent_or_empty (get_member language_only_body (str ''field''))"
    by (simp add: language_only_body_def absent_or_empty_def str_eq_iff)
  from missing_required_fields_rejected [OF a disjI1 [OF b], of demo_config pending_provider] a b
  show ?thesis by simp
qed

text \<open>
  \<^bold>\<open>C2\<close> says that a body that is not parseable as JSON is answered 400. It is not:
  \<^verbatim>\<open>request.json()\<close> is inside the \<^verbatim>\<open>try\<close> block, its \<^verbatim>\<open>SyntaxError\<close> reaches the
  \<^verbatim>\<open>catch\<close> clause, and the clause knows two cases only, \<^verbatim>\<open>AbortError\<close> (504) and
  everything else (500). The sample request has an empty body.
\<close>

theorem malformed_json_answered_500:
  "map_sum id status (outcome (POST demo_config malformed_request pending_provider)) = Inr 500
   \<and> map_sum id status (outcome (POST demo_config malformed_request pending_provider))
       \<noteq> Inr 400
   \<and> calls (POST demo_config malformed_request pending_provider) = []"
  by (simp add: POST_def try_block_def malformed_request_def catch_block_def str_eq_iff
      error_response_eq withCors_fields)

text \<open>
  \<^bold>\<open>C2, as the code has it.\<close> When the body is not parseable as JSON, \<^verbatim>\<open>POST\<close> answers 500
  with the parser's message as \<^verbatim>\<open>error\<close> (the generic message if the error carries none)
  and makes no call to the provider.
\<close>

theorem malformed_json_server_error:
  assumes "request_json request = Inl e" and "err_name e = str ''SyntaxError''"
  shows "responds (POST cfg request provider) 500
           (error_body (case err_message e of
                          Some m \<Rightarrow> m | None \<Rightarrow> str ''Unable to generate suggestion.''))
         \<and> calls (POST cfg request provider) = []"
  using assms
  by (simp add: POST_unparsed catch_block_def str_eq_iff responds_error_response)

theorem malformed_json_server_error_witness:
  "request_json malformed_request
     = Inl \<lparr>err_name = str ''SyntaxError'',
            err_message = Some (str ''Unexpected end of JSON input'')\<rparr>
   \<and> responds (POST demo_config malformed_request pending_provider) 500
         (error_body (str ''Unexpected end of JSON input''))
   \<and> calls (POST demo_config malformed_request pending_provider) = []"
  using malformed_json_server_error [of malformed_request
      "\<lparr>err_name = str ''SyntaxError'',
        err_message = Some (str ''Unexpected end of JSON input'')\<rparr>"
      demo_config pending_provider]
  by (simp add: malformed_request_def)

text \<open>
  \<^bold>\<open>C3.\<close> When the handler has called the provider and that call has not settled when the
  timer fires, 20000 milliseconds after it was armed, the call is aborted, \<^verbatim>\<open>POST\<close> answers
  504 with \<^verbatim>\<open>{ "error": "The request timed out." }\<close>, and the aborted call is the only
  call of the run. Every request of the declared type makes the handler call the provider
  (\<open>valid_request_calls_provider\<close>); the statement holds for every request that does. The
  sample provider would have resolved after 25 seconds.
\<close>

theorem provider_timeout_answered_504:
  assumes "call \<in> set (calls (POST cfg request provider))"
    and "\<not> settles_before 20000 (provider call)"
  shows "responds (POST cfg request provider) 504 (error_body (str ''The request timed out.''))
         \<and> fetch_aborted (POST cfg request provider)
         \<and> calls (POST cfg request provider) = [call]"
proof -
  from assms(1) obtain body where b: "request_json request = Inr body"
      "truthy_opt (get_member body (str ''field''))"
      "truthy_opt (get_member body (str ''language''))"
      "build_call cfg body = Inr call"
    by (rule POST_calls_cases)
  show ?thesis
    by (simp add: POST_called [OF b] await_fetch_unsettled [OF assms(2)]
        catch_block_AbortError responds_error_response)
qed

theorem provider_timeout_answered_504_witness:
  "demo_call \<in> set (calls (POST demo_config (parsed valid_body)
                           (reply_after 25000 (completion JNull))))
   \<and> \<not> settles_before 20000 (reply_after 25000 (completion JNull) demo_call)
   \<and> responds (POST demo_config (parsed valid_body) (reply_after 25000 (completion JNull)))
         504 (error_body (str ''The request timed out.''))
   \<and> fetch_aborted (POST demo_config (parsed valid_body) (reply_after 25000 (completion JNull)))
   \<and> calls (POST demo_config (parsed valid_body) (reply_after 25000 (completion JNull)))
       = [demo_call]"
proof -
  have a: "demo_call \<in> set (calls (POST demo_config (parsed valid_body)
      (reply_after 25000 (completion JNull))))"
    by (simp add: demo_calls)
  have b: "\<not> settles_before 20000 (reply_after 25000 (completion JNull) demo_call)"
    by (simp add: reply_after_def)
  from provider_timeout_answered_504 [OF a b] a b show ?thesis by simp
qed

text \<open>
  \<^bold>\<open>C4\<close> says that every non-success status of the provider is passed on unchanged. The
  handler passes it to \<^verbatim>\<open>NextResponse.json(..., { status: response.status })\<close>, and the
  \<^verbatim>\<open>Response\<close> constructor refuses some statuses: with a body, 304 is a \<^verbatim>\<open>TypeError\<close>, and
  a status outside 200..599 is a \<^verbatim>\<open>RangeError\<close>. The error is thrown inside the \<^verbatim>\<open>try\<close> block,
  so the answer is 500. The sample provider answers 304 with
  \<^verbatim>\<open>{"error":{"message":"quota exceeded"}}\<close>.
\<close>

theorem provider_304_answered_500:
  "provider_status (quota_response 304) = 304
   \<and> \<not> ok (quota_response 304)
   \<and> map_sum id status
        (outcome (POST demo_config (parsed valid_body) (reply_after 150 (quota_response 304))))
       = Inr 500
   \<and> map_sum id status
        (outcome (POST demo_config (parsed valid_body) (reply_after 150 (quota_response 304))))
       \<noteq> Inr 304"
proof -
  have a: "demo_call \<in> set (calls (POST demo_config (parsed valid_body)
      (reply_after 150 (quota_response 304))))"
    by (simp add: demo_calls)
  have "handle_response (quota_response 304) =
      Inl (TypeError (str ''Response constructor: Invalid response status code '' @ decimal 304))"
    by (simp add: handle_response_def ok_def quota_response_def error_response_eq)
  then have "map_sum id status
      (outcome (POST demo_config (parsed valid_body) (reply_after 150 (quota_response 304))))
      = Inr 500"
    by (simp add: POST_resolved [OF a, where t = 150 and response = "quota_response 304"]
        reply_after_def catch_block_def TypeError_def str_eq_iff error_response_eq
        withCors_fields)
  then show ?thesis by (simp add: quota_response_def ok_def)
qed

text \<open>
  \<^bold>\<open>C4, as the code has it.\<close> When the provider resolves in time with a status from 300 to
  599 other than 304, \<^verbatim>\<open>POST\<close> answers with that same status and with
  \<^verbatim>\<open>{ "error": m }\<close>, where \<open>m\<close> is the string at \<^verbatim>\<open>error.message\<close> of the provider's JSON
  body when there is one, and \<^verbatim>\<open>Unable to generate suggestion.\<close> when the body does not
  parse or has no string there. A 429 with \<^verbatim>\<open>{"error":{"message":"quota exceeded"}}\<close> is
  answered 429 with \<^verbatim>\<open>quota exceeded\<close>.
\<close>

theorem provider_error_status_propagated:
  assumes "call \<in> set (calls (POST cfg request provider))"
    and "provider call = Resolves t response" and "t < 20000"
    and "300 \<le> provider_status response" and "provider_status response \<le> 599"
    and "provider_status response \<noteq> 304"
  shows "responds (POST cfg request provider) (provider_status response)
           (error_body (claimed_error_message (provider_json response)))"
proof -
  have nok: "\<not> ok response" using assms(4) by (simp add: ok_def)
  have h: "handle_response response =
      error_response (claimed_error_message (provider_json response)) (provider_status response)"
    using nok by (simp add: handle_response_def error_message_of_claimed)
  have "\<exists>r. handle_response response = Inr r"
    using assms(4-6) unfolding h by (simp add: error_response_eq)
  then obtain r where r: "handle_response response = Inr r" ..
  have "outcome (POST cfg request provider) = handle_response response"
    by (simp add: POST_resolved [OF assms(1-3)] r)
  then show ?thesis
    using assms(4-6) unfolding h by (intro responds_error_response) simp_all
qed

theorem provider_error_status_propagated_witness:
  "demo_call \<in> set (calls (POST demo_config (parsed valid_body)
                           (reply_after 150 (quota_response 429))))
   \<and> reply_after 150 (quota_response 429) demo_call = Resolves 150 (quota_response 429)
   \<and> (150::nat) < 20000
   \<and> 300 \<le> provider_status (quota_response 429)
   \<and> provider_status (quota_response 429) \<le> 599
   \<and> provider_status (quota_response 429) \<noteq> 304
   \<and> responds (POST demo_config (parsed valid_body) (reply_after 150 (quota_response 429)))
         429 (error_body (str ''quota exceeded''))"
proof -
  have a: "demo_call \<in> set (calls (POST demo_config (parsed valid_body)
      (reply_after 150 (quota_response 429))))"
    by (simp add: demo_calls)
  have b: "reply_after 150 (quota_response 429) demo_call = Resolves 150 (quota_response 429)"
    by (simp add: reply_after_def)
  have c: "(150::nat) < 20000" by simp
  have d: "300 \<le> provider_status (quota_response 429)"
    "provider_status (quota_response 429) \<le> 599"
    "provider_status (quota_response 429) \<noteq> 304"
    by (simp_all add: quota_response_def)
  from provider_error_status_propagated [OF a b c d] a b c d show ?thesis
    by (simp add: quota_response_def str_eq_iff)
qed

text \<open>
  \<^bold>\<open>C5.\<close> When the provider resolves in time with a success status (200 among them) and a
  JSON body that has no text at \<^verbatim>\<open>choices[0].message.content\<close> (nothing is there, or
  \<^verbatim>\<open>null\<close>, or the empty string), \<^verbatim>\<open>POST\<close> answers 500 with
  \<^verbatim>\<open>{ "error": "No suggestion received." }\<close>. The place is read as the handler's own
  expression reads it. The provider's contract puts a string or nothing there; a truthy value
  of another type is outside the statement (\<open>handle_response_non_text\<close> says what happens).
\<close>

theorem missing_content_answered_500:
  assumes "call \<in> set (calls (POST cfg request provider))"
    and "provider call = Resolves t response" and "t < 20000"
    and "ok response"
    and "provider_json response = Inr data"
    and "absent_or_empty (content_of data)"
  shows "responds (POST cfg request provider) 500 (error_body (str ''No suggestion received.''))"
proof -
  have "\<not> truthy_opt (content_of data)"
    using assms(6) by (rule absent_or_empty_not_truthy)
  then have "handle_response response = error_response (str ''No suggestion received.'') 500"
    using assms(4,5) by (simp add: handle_response_no_content)
  then have "outcome (POST cfg request provider)
      = error_response (str ''No suggestion received.'') 500"
    by (simp add: POST_resolved [OF assms(1-3)] error_response_eq)
  then show ?thesis by (intro responds_error_response) simp_all
qed

theorem missing_content_answered_500_witness:
  "demo_call \<in> set (calls (POST demo_config (parsed valid_body)
                           (reply_after 150 (completion (JObj [])))))
   \<and> reply_after 150 (completion (JObj [])) demo_call = Resolves 150 (completion (JObj []))
   \<and> (150::nat) < 20000
   \<and> ok (completion (JObj []))
   \<and> provider_json (completion (JObj []))
       = Inr (JObj [(str ''choices'', JArr [JObj [(str ''message'', JObj [])]])])
   \<and> absent_or_empty
        (content_of (JObj [(str ''choices'', JArr [JObj [(str ''message'', JObj [])]])]))
   \<and> responds (POST demo_config (parsed valid_body) (reply_after 150 (completion (JObj []))))
         500 (error_body (str ''No suggestion received.''))"
proof -
  have a: "demo_call \<in> set (calls (POST demo_config (parsed valid_body)
      (reply_after 150 (completion (JObj [])))))"
    by (simp add: demo_calls)
  have b: "reply_after 150 (completion (JObj [])) demo_call = Resolves 150 (completion (JObj []))"
    by (simp add: reply_after_def)
  have c: "(150::nat) < 20000" by simp
  have d: "ok (completion (JObj []))" by (simp add: ok_def completion_def)
  have e: "provider_json (completion (JObj []))
      = Inr (JObj [(str ''choices'', JArr [JObj [(str ''message'', JObj [])]])])"
    by (simp add: completion_def)
  have f: "absent_or_empty
      (content_of (JObj [(str ''choices'', JArr [JObj [(str ''message'', JObj [])]])]))"
    by (simp add: absent_or_empty_def content_of_def str_eq_iff)
  from missing_content_answered_500 [OF a b c d e f] a b c d e f show ?thesis by simp
qed

text \<open>
  \<^bold>\<open>C6.\<close> When the provider resolves in time with a success status (200 among them) and a
  non-empty string \<open>c\<close> at \<^verbatim>\<open>choices[0].message.content\<close>, \<^verbatim>\<open>POST\<close> answers 200 with
  \<^verbatim>\<open>{ "suggestion": t }\<close>, where \<open>t\<close> is \<open>c\<close> without its surrounding white space: \<open>c\<close> is
  \<open>t\<close> between two runs of white space, and \<open>t\<close> neither starts nor ends with white space.
  The content \<^verbatim>\<open>"  Hello world.  "\<close> gives \<^verbatim>\<open>"Hello world."\<close>.
\<close>

theorem suggestion_is_trimmed_content:
  assumes "call \<in> set (calls (POST cfg request provider))"
    and "provider call = Resolves t response" and "t < 20000"
    and "ok response"
    and "provider_json response = Inr data"
    and "content_of data = Some (JStr c)" and "c \<noteq> []"
  shows "responds (POST cfg request provider) 200 (suggestion_body (trim c))
         \<and> (\<exists>l r. c = l @ trim c @ r
                \<and> list_all is_white_space l \<and> list_all is_white_space r)
         \<and> takeWhile is_white_space (trim c) = []
         \<and> takeWhile is_white_space (rev (trim c)) = []"
proof -
  have "outcome (POST cfg request provider) =
      Inr (withCors \<lparr>status = 200,
             headers = [(str ''content-type'', str ''application/json'')],
             json_body = Some (suggestion_body (trim c))\<rparr>)"
    by (simp add: POST_resolved [OF assms(1-3)] handle_response_text [OF assms(4-7)])
  then have "responds (POST cfg request provider) 200 (suggestion_body (trim c))"
    by (simp add: responds_def withCors_fields)
  then show ?thesis
    using trim_decompose [of c] trim_no_leading [of c] trim_no_trailing [of c] by simp
qed

theorem suggestion_is_trimmed_content_witness:
  "demo_call \<in> set (calls (POST demo_config (parsed valid_body)
       (reply_after 150
          (completion (JObj [(str ''content'', JStr (str ''  Hello world.  ''))])))))
   \<and> reply_after 150
        (completion (JObj [(str ''content'', JStr (str ''  Hello world.  ''))])) demo_call
       = Resolves 150 (completion (JObj [(str ''content'', JStr (str ''  Hello world.  ''))]))
   \<and> (150::nat) < 20000
   \<and> ok (completion (JObj [(str ''content'', JStr (str ''  Hello world.  ''))]))
   \<and> content_of (JObj [(str ''choices'', JArr [JObj [(str ''message'',
          JObj [(str ''content'', JStr (str ''  Hello world.  ''))])]])])
       = Some (JStr (str ''  Hello world.  ''))
   \<and> str ''  Hello world.  '' \<noteq> []
   \<and> responds (POST demo_config (parsed valid_body)
         (reply_after 150
            (completion (JObj [(str ''content'', JStr (str ''  Hello world.  ''))]))))
         200 (suggestion_body (str ''Hello world.''))"
proof -
  let ?m = "JObj [(str ''content'', JStr (str ''  Hello world.  ''))]"
  have a: "demo_call \<in> set (calls (POST demo_config (parsed valid_body)
      (reply_after 150 (completion ?m))))"
    by (simp add: demo_calls)
  have b: "reply_after 150 (completion ?m) demo_call = Resolves 150 (completion ?m)"
    by (simp add: reply_after_def)
  have c: "(150::nat) < 20000" by simp
  have d: "ok (completion ?m)" by (simp add: ok_def completion_def)
  have e: "provider_json (completion ?m)
      = Inr (JObj [(str ''choices'', JArr [JObj [(str ''message'', ?m)]])])"
    by (simp add: completion_def)
  have f: "content_of (JObj [(str ''choices'', JArr [JObj [(str ''message'', ?m)]])])
      = Some (JStr (str ''  Hello world.  ''))"
    by (rule content_of_completion)
  have g: "str ''  Hello world.  '' \<noteq> []" by (simp add: str_Nil_iff)
  from suggestion_is_trimmed_content [OF a b c d e f g] a b c d f g show ?thesis
    by (simp add: trim_hello)
qed

text \<open>
  \<^bold>\<open>C7.\<close> The user message of every call the handler makes (it makes one for every request
  of the declared type, \<open>valid_request_calls_provider\<close>) is its segments joined by single
  spaces, and no segment is empty: an optional field that is absent or empty leaves no
  placeholder. When \<^verbatim>\<open>applicantDetails\<close> is absent or empty, no segment starts with
  \<^verbatim>\<open>Applicant context\<close> (likewise \<^verbatim>\<open>existingText\<close> and \<^verbatim>\<open>Applicant notes\<close>). When
  \<^verbatim>\<open>applicantDetails\<close> is a non-empty string \<open>d\<close>, the segment
  \<^verbatim>\<open>Applicant context: d.\<close> is among them, so that \<open>d\<close> stands in the user message verbatim
  right after \<^verbatim>\<open>Applicant context: \<close>.
\<close>

theorem applicant_context_segment:
  assumes "request_json request = Inr body"
    and "call \<in> set (calls (POST cfg request provider))"
  shows "\<exists>system_text segments.
           user_segments body = Inr segments
           \<and> messages call = [\<lparr>role = str ''system'', content = system_text\<rparr>,
                               \<lparr>role = str ''user'', content = join (str '' '') segments\<rparr>]
           \<and> list_all (\<lambda>s. join_item s \<noteq> []) segments
           \<and> (absent_or_empty (get_member body (str ''applicantDetails'')) \<longrightarrow>
                list_all (\<lambda>s. \<not> prefix (str ''Applicant context'') (join_item s)) segments)
           \<and> (absent_or_empty (get_member body (str ''existingText'')) \<longrightarrow>
                list_all (\<lambda>s. \<not> prefix (str ''Applicant notes'') (join_item s)) segments)
           \<and> (\<forall>d. get_member body (str ''applicantDetails'') = Some (JStr d) \<and> d \<noteq> [] \<longrightarrow>
                VString (str ''Applicant context: '' @ d @ str ''.'') \<in> set segments
                \<and> sublist (str ''Applicant context: '' @ d) (join (str '' '') segments))"
proof -
  from assms(2) obtain body' where "request_json request = Inr body'"
    and "build_call cfg body' = Inr call"
    by (rule POST_calls_cases)
  with assms(1) have built: "build_call cfg body = Inr call" by simp
  from built obtain key arr where
    arr: "user_array body = Inr arr"
    and segs: "user_segments body = Inr (filter value_truthy arr)"
    and msgs: "messages call =
       [\<lparr>role = str ''system'', content = system_content (record_get fieldFocus key)\<rparr>,
        \<lparr>role = str ''user'', content = join (str '' '') (filter value_truthy arr)\<rparr>]"
    by (rule build_call_shape)
  from arr obtain key' ctx notes_text where
    ctx: "optional_segment (str ''Applicant context: '')
       (get_member body (str ''applicantDetails'')) (str ''.'') = Inr ctx"
    and notes_eq: "optional_segment (str ''Applicant notes: '')
       (get_member body (str ''existingText'')) [] = Inr notes_text"
    and arr_eq: "arr = [VString (language_sentence body), VString style_sentence,
            record_get fieldGuidance key', VString ctx, VString notes_text]"
    by (rule user_array_shape)
  let ?segments = "filter value_truthy arr"
  have nonempty: "list_all (\<lambda>s. join_item s \<noteq> []) ?segments"
    by (simp add: list_all_iff value_truthy_join_item)
  have ctx_shape: "ctx = [] \<or> prefix (str ''Applicant context: '') ctx"
    using ctx by (rule optional_segment_shape)
  have notes_shape: "notes_text = [] \<or> prefix (str ''Applicant notes: '') notes_text"
    using notes_eq by (rule optional_segment_shape)
  have no_context: "list_all (\<lambda>s. \<not> prefix (str ''Applicant context'') (join_item s)) ?segments"
    if "absent_or_empty (get_member body (str ''applicantDetails''))"
  proof -
    have "ctx = []" using optional_segment_absent [OF that] ctx by simp
    then show ?thesis
      using notes_shape
      by (auto simp add: arr_eq not_context_language not_context_style not_context_guidance
          notes_is_not_context)
  qed
  have no_notes: "list_all (\<lambda>s. \<not> prefix (str ''Applicant notes'') (join_item s)) ?segments"
    if "absent_or_empty (get_member body (str ''existingText''))"
  proof -
    have "notes_text = []" using optional_segment_absent [OF that] notes_eq by simp
    then show ?thesis
      using ctx_shape
      by (auto simp add: arr_eq not_notes_language not_notes_style not_notes_guidance
          context_is_not_notes)
  qed
  have verbatim: "VString (str ''Applicant context: '' @ d @ str ''.'') \<in> set ?segments
      \<and> sublist (str ''Applicant context: '' @ d) (join (str '' '') ?segments)"
    if "get_member body (str ''applicantDetails'') = Some (JStr d) \<and> d \<noteq> []" for d
  proof -
    have "ctx = str ''Applicant context: '' @ d @ str ''.''"
      using ctx that by simp
    then have mem: "VString (str ''Applicant context: '' @ d @ str ''.'') \<in> set ?segments"
      by (simp add: arr_eq str_Nil_iff)
    then have "sublist (join_item (VString (str ''Applicant context: '' @ d @ str ''.'')))
        (join (str '' '') ?segments)"
      by (rule sublist_join_item)
    moreover have "sublist (str ''Applicant context: '' @ d)
        (join_item (VString (str ''Applicant context: '' @ d @ str ''.'')))"
      using sublist_append_rightI [of "str ''Applicant context: '' @ d" "str ''.''"] by simp
    ultimately have "sublist (str ''Applicant context: '' @ d) (join (str '' '') ?segments)"
      by (rule sublist_order.order_trans [rotated])
    with mem show ?thesis by simp
  qed
  show ?thesis
    using segs msgs nonempty no_context no_notes verbatim by blast
qed

theorem applicant_context_segment_witness:
  "request_json (parsed valid_body) = Inr valid_body
   \<and> demo_call \<in> set (calls (POST demo_config (parsed valid_body) pending_provider))
   \<and> get_member valid_body (str ''applicantDetails'') = Some (JStr (str ''Two children''))
   \<and> str ''Two children'' \<noteq> []
   \<and> (\<exists>segments. user_segments valid_body = Inr segments
         \<and> VString (str ''Applicant context: Two children.'') \<in> set segments
         \<and> sublist (str ''Applicant context: Two children'') (join (str '' '') segments))
   \<and> request_json (parsed plain_body) = Inr plain_body
   \<and> plain_call \<in> set (calls (POST demo_config (parsed plain_body) pending_provider))
   \<and> absent_or_empty (get_member plain_body (str ''applicantDetails''))
   \<and> absent_or_empty (get_member plain_body (str ''existingText''))
   \<and> (\<exists>segments. user_segments plain_body = Inr segments
         \<and> list_all (\<lambda>s. join_item s \<noteq> []) segments
         \<and> list_all (\<lambda>s. \<not> prefix (str ''Applicant context'') (join_item s)) segments
         \<and> list_all (\<lambda>s. \<not> prefix (str ''Applicant notes'') (join_item s)) segments)"
proof -
  have a1: "request_json (parsed valid_body) = Inr valid_body" by (simp add: parsed_def)
  have a2: "demo_call \<in> set (calls (POST demo_config (parsed valid_body) pending_provider))"
    by (simp add: demo_calls)
  have a3: "get_member valid_body (str ''applicantDetails'')
      = Some (JStr (str ''Two children''))"
    by (simp add: valid_body_def str_eq_iff)
  have a4: "str ''Two children'' \<noteq> []" by (simp add: str_Nil_iff)
  have b1: "request_json (parsed plain_body) = Inr plain_body" by (simp add: parsed_def)
  have b2: "plain_call \<in> set (calls (POST demo_config (parsed plain_body) pending_provider))"
    by (simp add: plain_calls)
  have b3: "absent_or_empty (get_member plain_body (str ''applicantDetails''))"
    by (simp add: plain_body_def absent_or_empty_def str_eq_iff)
  have b4: "absent_or_empty (get_member plain_body (str ''existingText''))"
    by (simp add: plain_body_def absent_or_empty_def str_eq_iff)
  have a5: "\<exists>segments. user_segments valid_body = Inr segments
         \<and> VString (str ''Applicant context: Two children.'') \<in> set segments
         \<and> sublist (str ''Applicant context: Two children'') (join (str '' '') segments)"
    using applicant_context_segment [OF a1 a2] a3 a4 by (auto simp add: str_def)
  have b5: "\<exists>segments. user_segments plain_body = Inr segments
         \<and> list_all (\<lambda>s. join_item s \<noteq> []) segments
         \<and> list_all (\<lambda>s. \<not> prefix (str ''Applicant context'') (join_item s)) segments
         \<and> list_all (\<lambda>s. \<not> prefix (str ''Applicant notes'') (join_item s)) segments"
    using applicant_context_segment [OF b1 b2] b3 b4 by blast
  from a1 a2 a3 a4 a5 b1 b2 b3 b4 b5 show ?thesis by blast
qed

text \<open>
  \<^bold>\<open>C8.\<close> Every response of the endpoint carries the three fixed cross-origin headers
  \<^verbatim>\<open>Access-Control-Allow-Origin: *\<close>, \<^verbatim>\<open>Access-Control-Allow-Methods: POST, OPTIONS\<close> and
  \<^verbatim>\<open>Access-Control-Allow-Headers: Content-Type, Authorization\<close>: whatever the request, the
  provider and the configuration, \<^verbatim>\<open>POST\<close> returns a response (it never throws out of its
  \<^verbatim>\<open>catch\<close> clause) and that response has the headers, on the success exit and on every error
  exit; so does the response of \<^verbatim>\<open>OPTIONS\<close>.
\<close>

theorem cors_headers_on_every_response:
  "has_cors (outcome (POST cfg request provider)) \<and> has_cors OPTIONS"
proof
  show "has_cors (outcome (POST cfg request provider))"
    by (cases "outcome (try_block cfg request provider)")
       (simp_all add: POST_def Let_def catch_block_has_cors try_block_has_cors)
  show "has_cors OPTIONS"
    by (simp add: OPTIONS_def new_NextResponse_def withCors_has_cors)
qed

theorem cors_headers_on_every_response_witness:
  "has_cors (outcome (POST demo_config (parsed valid_body) pending_provider))
   \<and> has_cors OPTIONS"
  using cors_headers_on_every_response [of demo_config "parsed valid_body" pending_provider]
  by simp

text \<open>
  \<^bold>\<open>C9\<close> says that for a \<^verbatim>\<open>field\<close> outside the enumeration both lookups find nothing and
  \<^verbatim>\<open>undefined\<close> is interpolated. The tables are plain objects: under a name that
  \<^verbatim>\<open>Object.prototype\<close> defines, such as \<^verbatim>\<open>toString\<close>, the lookup finds the inherited
  function, and the prompt carries its source text, not \<^verbatim>\<open>undefined\<close>.
\<close>

theorem prototype_name_finds_an_entry:
  "record_get fieldFocus (str ''toString'') = VFunction (str ''toString'')
   \<and> record_get fieldGuidance (str ''toString'') = VFunction (str ''toString'')
   \<and> map content
        (concat (map messages (calls (POST demo_config (parsed toString_body) pending_provider))))
       = [system_prefix @ str ''function toString() { [native code] }'' @ system_suffix,
          str ''Write the paragraph in English. Sound like a real person describing lived experience in a warm but direct way. Do not start with a greeting. function toString() { [native code] }'']
   \<and> system_prefix @ str ''function toString() { [native code] }'' @ system_suffix
       \<noteq> system_prefix @ str ''undefined'' @ system_suffix"
proof (intro conjI)
  show "record_get fieldFocus (str ''toString'') = VFunction (str ''toString'')"
    by (simp add: record_get_def fieldFocus_def str_eq_iff object_prototype_get_def
        object_prototype_functions_def)
  show "record_get fieldGuidance (str ''toString'') = VFunction (str ''toString'')"
    by (simp add: record_get_def fieldGuidance_def str_eq_iff object_prototype_get_def
        object_prototype_functions_def)
  show "map content
        (concat (map messages (calls (POST demo_config (parsed toString_body) pending_provider))))
       = [system_prefix @ str ''function toString() { [native code] }'' @ system_suffix,
          str ''Write the paragraph in English. Sound like a real person describing lived experience in a warm but direct way. Do not start with a greeting. function toString() { [native code] }'']"
    by (simp add: toString_calls)
  show "system_prefix @ str ''function toString() { [native code] }'' @ system_suffix
       \<noteq> system_prefix @ str ''undefined'' @ system_suffix"
    by (simp add: str_eq_iff)
qed

text \<open>
  \<^bold>\<open>C9, as the code has it.\<close> When \<^verbatim>\<open>field\<close> is a non-empty string outside the enumeration,
  \<^verbatim>\<open>language\<close> is non-empty and the optional fields convert to strings, validation lets
  the request through and the provider call is made; neither table has an own entry for the
  field, so each lookup answers what \<^verbatim>\<open>Object.prototype\<close> has under that name. When that is
  nothing, the system message reads \<^verbatim>\<open>Focus tightly on undefined.\<close> and the
  \<^verbatim>\<open>undefined\<close> guidance is dropped from the user message by \<^verbatim>\<open>filter(Boolean)\<close>.
\<close>

theorem unlisted_field_reaches_provider:
  assumes "request_json request = Inr body"
    and "get_member body (str ''field'') = Some (JStr f)" and "f \<noteq> []"
    and "f \<notin> set suggestion_fields"
    and "truthy_opt (get_member body (str ''language''))"
    and "convertible (get_member body (str ''applicantDetails''))"
    and "convertible (get_member body (str ''existingText''))"
  shows "\<exists>call context_segment notes_segment.
           calls (POST cfg request provider) = [call]
           \<and> map_of fieldFocus f = None \<and> map_of fieldGuidance f = None
           \<and> record_get fieldFocus f = object_prototype_get f
           \<and> record_get fieldGuidance f = object_prototype_get f
           \<and> (object_prototype_get f = VUndefined \<longrightarrow>
                user_array body =
                  Inr [VString (language_sentence body), VString style_sentence, VUndefined,
                       VString context_segment, VString notes_segment]
                \<and> messages call =
                    [\<lparr>role = str ''system'',
                      content = system_prefix @ str ''undefined'' @ system_suffix\<rparr>,
                     \<lparr>role = str ''user'',
                      content = join (str '' '')
                        (filter value_truthy
                           [VString (language_sentence body), VString style_sentence,
                            VString context_segment, VString notes_segment])\<rparr>])"
proof -
  obtain ctx where ctx: "optional_segment (str ''Applicant context: '')
       (get_member body (str ''applicantDetails'')) (str ''.'') = Inr ctx"
    using optional_segment_convertible [OF assms(6)] by blast
  obtain nts where nts: "optional_segment (str ''Applicant notes: '')
       (get_member body (str ''existingText'')) [] = Inr nts"
    using optional_segment_convertible [OF assms(7)] by blast
  have none: "map_of fieldFocus f = None" "map_of fieldGuidance f = None"
    using assms(4) by (rule unlisted_no_entry)+
  then have look: "record_get fieldFocus f = object_prototype_get f"
      "record_get fieldGuidance f = object_prototype_get f"
    by (simp_all add: record_get_def)
  have arr: "user_array body =
      Inr [VString (language_sentence body), VString style_sentence, object_prototype_get f,
           VString ctx, VString nts]"
    by (simp add: user_array_def assms(2) ctx nts look)
  let ?call = "\<lparr>url = str ''https://api.openai.com/v1/chat/completions'',
       http_method = str ''POST'',
       content_type = str ''application/json'',
       authorization = str ''Bearer '' @ OPENAI_API_KEY cfg,
       model = OPENAI_MODEL cfg,
       messages =
         [\<lparr>role = str ''system'', content = system_content (object_prototype_get f)\<rparr>,
          \<lparr>role = str ''user'',
           content = join (str '' '')
             (filter value_truthy
                [VString (language_sentence body), VString style_sentence,
                 object_prototype_get f, VString ctx, VString nts])\<rparr>],
       temperature = str ''0.6''\<rparr>"
  have built: "build_call cfg body = Inr ?call"
    by (simp add: build_call_def chat_messages_def user_segments_def arr assms(2) look)
  have "truthy_opt (get_member body (str ''field''))"
    using assms(2,3) by simp
  then have made: "calls (POST cfg request provider) = [?call]"
    using assms(1,5) built by (simp add: POST_calls)
  have "user_array body =
          Inr [VString (language_sentence body), VString style_sentence, VUndefined,
               VString ctx, VString nts]
        \<and> messages ?call =
            [\<lparr>role = str ''system'',
              content = system_prefix @ str ''undefined'' @ system_suffix\<rparr>,
             \<lparr>role = str ''user'',
              content = join (str '' '')
                (filter value_truthy
                   [VString (language_sentence body), VString style_sentence,
                    VString ctx, VString nts])\<rparr>]"
    if "object_prototype_get f = VUndefined"
    using that arr by (simp add: system_content_def)
  with made none look show ?thesis by blast
qed

theorem unlisted_field_reaches_provider_witness:
  "request_json (parsed housing_body) = Inr housing_body
   \<and> get_member housing_body (str ''field'') = Some (JStr (str ''housing''))
   \<and> str ''housing'' \<noteq> []
   \<and> str ''housing'' \<notin> set suggestion_fields
   \<and> truthy_opt (get_member housing_body (str ''language''))
   \<and> convertible (get_member housing_body (str ''applicantDetails''))
   \<and> convertible (get_member housing_body (str ''existingText''))
   \<and> object_prototype_get (str ''housing'') = VUndefined
   \<and> map messages (calls (POST demo_config (parsed housing_body) pending_provider)) =
       [[\<lparr>role = str ''system'',
          content = system_prefix @ str ''undefined'' @ system_suffix\<rparr>,
         \<lparr>role = str ''user'',
          content = str ''Write the paragraph in English. Sound like a real person describing lived experience in a warm but direct way. Do not start with a greeting.''\<rparr>]]"
proof -
  have a: "request_json (parsed housing_body) = Inr housing_body" by (simp add: parsed_def)
  have b: "get_member housing_body (str ''field'') = Some (JStr (str ''housing''))"
    by (simp add: housing_body_def)
  have c: "str ''housing'' \<noteq> []" by (simp add: str_Nil_iff)
  have d: "str ''housing'' \<notin> set suggestion_fields"
    by (simp add: suggestion_fields_def str_eq_iff)
  have e: "truthy_opt (get_member housing_body (str ''language''))"
    by (simp add: housing_body_def str_eq_iff str_Nil_iff)
  have f: "convertible (get_member housing_body (str ''applicantDetails''))"
    by (simp add: housing_body_def str_eq_iff)
  have g: "convertible (get_member housing_body (str ''existingText''))"
    by (simp add: housing_body_def str_eq_iff)
  have h: "object_prototype_get (str ''housing'') = VUndefined"
    by (simp add: object_prototype_get_def object_prototype_functions_def str_eq_iff)
  from unlisted_field_reaches_provider [OF a b c d e f g, of demo_config pending_provider] h
  obtain call ctx nts where
    made: "calls (POST demo_config (parsed housing_body) pending_provider) = [call]"
    and arr: "user_array housing_body =
      Inr [VString (language_sentence housing_body), VString style_sentence, VUndefined,
           VString ctx, VString nts]"
    and msgs: "messages call =
      [\<lparr>role = str ''system'', content = system_prefix @ str ''undefined'' @ system_suffix\<rparr>,
       \<lparr>role = str ''user'',
        content = join (str '' '')
          (filter value_truthy
             [VString (language_sentence housing_body), VString style_sentence,
              VString ctx, VString nts])\<rparr>]"
    by auto
  from arr have "ctx = []" "nts = []" by (simp_all add: housing_array)
  then have "messages call =
      [\<lparr>role = str ''system'', content = system_prefix @ str ''undefined'' @ system_suffix\<rparr>,
       \<lparr>role = str ''user'',
        content = str ''Write the paragraph in English. Sound like a real person describing lived experience in a warm but direct way. Do not start with a greeting.''\<rparr>]"
    unfolding msgs
    by (simp add: language_sentence_def style_sentence_def housing_body_def str_eq_iff
        str_Nil_iff)
       (simp add: str_def)
  with made a b c d e f g h show ?thesis by simp
qed

text \<open>
  \<^bold>\<open>C10.\<close> The emptiness check comes before the trim. When the provider resolves in time
  with a success status and a string at \<^verbatim>\<open>choices[0].message.content\<close>: a non-empty string
  of white space only is answered 200 with \<^verbatim>\<open>{ "suggestion": "" }\<close>, and the empty string
  is answered 500 with \<^verbatim>\<open>{ "error": "No suggestion received." }\<close>.
\<close>

theorem emptiness_checked_before_trimming:
  assumes "call \<in> set (calls (POST cfg request provider))"
    and "provider call = Resolves t response" and "t < 20000"
    and "ok response"
    and "provider_json response = Inr data"
    and "content_of data = Some (JStr c)"
  shows "(c \<noteq> [] \<and> list_all is_white_space c \<longrightarrow>
            responds (POST cfg request provider) 200 (suggestion_body []))
         \<and> (c = [] \<longrightarrow>
            responds (POST cfg request provider) 500
              (error_body (str ''No suggestion received.'')))"
proof (intro conjI impI)
  assume c: "c \<noteq> [] \<and> list_all is_white_space c"
  have "outcome (POST cfg request provider) =
      Inr (withCors \<lparr>status = 200,
             headers = [(str ''content-type'', str ''application/json'')],
             json_body = Some (suggestion_body (trim c))\<rparr>)"
    using c by (simp add: POST_resolved [OF assms(1-3)] handle_response_text [OF assms(4-6)])
  then show "responds (POST cfg request provider) 200 (suggestion_body [])"
    using c by (simp add: responds_def withCors_fields trim_all_white_space)
next
  assume "c = []"
  then have "\<not> truthy_opt (content_of data)" using assms(6) by simp
  then have "outcome (POST cfg request provider)
      = error_response (str ''No suggestion received.'') 500"
    using assms(4,5)
    by (simp add: POST_resolved [OF assms(1-3)] handle_response_no_content error_response_eq)
  then show "responds (POST cfg request provider) 500
      (error_body (str ''No suggestion received.''))"
    by (intro responds_error_response) simp_all
qed

theorem emptiness_checked_before_trimming_witness:
  "demo_call \<in> set (calls (POST demo_config (parsed valid_body)
       (reply_after 150 (completion (JObj [(str ''content'', JStr (str ''   ''))])))))
   \<and> reply_after 150 (completion (JObj [(str ''content'', JStr (str ''   ''))])) demo_call
       = Resolves 150 (completion (JObj [(str ''content'', JStr (str ''   ''))]))
   \<and> (150::nat) < 20000
   \<and> ok (completion (JObj [(str ''content'', JStr (str ''   ''))]))
   \<and> str ''   '' \<noteq> [] \<and> list_all is_white_space (str ''   '')
   \<and> responds (POST demo_config (parsed valid_body)
         (reply_after 150 (completion (JObj [(str ''content'', JStr (str ''   ''))]))))
         200 (suggestion_body [])
   \<and> demo_call \<in> set (calls (POST demo_config (parsed valid_body)
       (reply_after 150 (completion (JObj [(str ''content'', JStr [])])))))
   \<and> ok (completion (JObj [(str ''content'', JStr [])]))
   \<and> responds (POST demo_config (parsed valid_body)
         (reply_after 150 (completion (JObj [(str ''content'', JStr [])]))))
         500 (error_body (str ''No suggestion received.''))"
proof -
  let ?blank = "JObj [(str ''content'', JStr (str ''   ''))]"
  let ?empty = "JObj [(str ''content'', JStr [])]"
  have a: "demo_call \<in> set (calls (POST demo_config (parsed valid_body)
      (reply_after 150 (completion ?blank))))"
    by (simp add: demo_calls)
  have b: "reply_after 150 (completion ?blank) demo_call = Resolves 150 (completion ?blank)"
    by (simp add: reply_after_def)
  have c: "(150::nat) < 20000" by simp
  have d: "ok (completion ?blank)" by (simp add: ok_def completion_def)
  have e: "provider_json (completion ?blank)
      = Inr (JObj [(str ''choices'', JArr [JObj [(str ''message'', ?blank)]])])"
    by (simp add: completion_def)
  have f: "content_of (JObj [(str ''choices'', JArr [JObj [(str ''message'', ?blank)]])])
      = Some (JStr (str ''   ''))"
    by (rule content_of_completion)
  have g: "str ''   '' \<noteq> []" "list_all is_white_space (str ''   '')"
    by (simp_all add: str_def is_white_space_def)
  have a': "demo_call \<in> set (calls (POST demo_config (parsed valid_body)
      (reply_after 150 (completion ?empty))))"
    by (simp add: demo_calls)
  have b': "reply_after 150 (completion ?empty) demo_call = Resolves 150 (completion ?empty)"
    by (simp add: reply_after_def)
  have d': "ok (completion ?empty)" by (simp add: ok_def completion_def)
  have e': "provider_json (completion ?empty)
      = Inr (JObj [(str ''choices'', JArr [JObj [(str ''message'', ?empty)]])])"
    by (simp add: completion_def)
  have f': "content_of (JObj [(str ''choices'', JArr [JObj [(str ''message'', ?empty)]])])
      = Some (JStr [])"
    by (rule content_of_completion)
  from emptiness_checked_before_trimming [OF a b c d e f]
    emptiness_checked_before_trimming [OF a' b' c d' e' f'] a b c d g a' d'
  show ?thesis by simp
qed

end
